theory Spec2Isabelle
  imports Complex_Main
begin

section \<open>Double-precision values\<close>

text \<open>
  The program computes with C++ \<^verbatim>\<open>double\<close> and \<^verbatim>\<open>float\<close>. A value is modelled as a
  finite real, one of the two infinities, or not-a-number, and the operations follow
  IEEE 754 on the special values: a division by zero does not trap, it yields an
  infinity (or NaN for 0/0), and every ordered comparison with NaN is false.
  Idealisations: \<^verbatim>\<open>double\<close> arithmetic on finite values is exact (no rounding to 53
  bits, no overflow to infinity), and zero carries no sign (a zero divisor counts as
  +0). Single precision is kept where the source declares a \<^verbatim>\<open>float\<close>: a constant
  stored in a \<^verbatim>\<open>float\<close> has the value of the nearest float, and a value assigned to a
  \<^verbatim>\<open>float\<close> or computed by an operation on floats is rounded by \<open>float_round\<close> below.
\<close>

datatype double = Fin real | PInf | NInf | NaN

fun fneg :: "double \<Rightarrow> double" where
  "fneg (Fin a) = Fin (- a)"
| "fneg PInf = NInf"
| "fneg NInf = PInf"
| "fneg NaN = NaN"

fun fadd :: "double \<Rightarrow> double \<Rightarrow> double" where
  "fadd (Fin a) (Fin b) = Fin (a + b)"
| "fadd NaN _ = NaN"
| "fadd _ NaN = NaN"
| "fadd PInf NInf = NaN"
| "fadd NInf PInf = NaN"
| "fadd PInf _ = PInf"
| "fadd _ PInf = PInf"
| "fadd NInf _ = NInf"
| "fadd _ NInf = NInf"

definition fsub :: "double \<Rightarrow> double \<Rightarrow> double" where
  "fsub a b = fadd a (fneg b)"

fun fmul :: "double \<Rightarrow> double \<Rightarrow> double" where
  "fmul (Fin a) (Fin b) = Fin (a * b)"
| "fmul NaN _ = NaN"
| "fmul _ NaN = NaN"
| "fmul PInf (Fin b) = (if b = 0 then NaN else if 0 < b then PInf else NInf)"
| "fmul NInf (Fin b) = (if b = 0 then NaN else if 0 < b then NInf else PInf)"
| "fmul (Fin a) PInf = (if a = 0 then NaN else if 0 < a then PInf else NInf)"
| "fmul (Fin a) NInf = (if a = 0 then NaN else if 0 < a then NInf else PInf)"
| "fmul PInf PInf = PInf"
| "fmul NInf NInf = PInf"
| "fmul PInf NInf = NInf"
| "fmul NInf PInf = NInf"

fun fdiv :: "double \<Rightarrow> double \<Rightarrow> double" where
  "fdiv (Fin a) (Fin b) =
     (if b \<noteq> 0 then Fin (a / b)
      else if a = 0 then NaN else if 0 < a then PInf else NInf)"
| "fdiv NaN _ = NaN"
| "fdiv _ NaN = NaN"
| "fdiv (Fin a) _ = Fin 0"
| "fdiv PInf (Fin b) = (if 0 \<le> b then PInf else NInf)"
| "fdiv NInf (Fin b) = (if 0 \<le> b then NInf else PInf)"
| "fdiv _ _ = NaN"

fun fsqrt :: "double \<Rightarrow> double" where
  "fsqrt (Fin a) = (if a < 0 then NaN else Fin (sqrt a))"
| "fsqrt PInf = PInf"
| "fsqrt _ = NaN"

text \<open>The comparisons \<^verbatim>\<open><\<close>, \<^verbatim>\<open>>\<close>, \<^verbatim>\<open>>=\<close>, \<^verbatim>\<open>==\<close> and \<^verbatim>\<open>!=\<close>.\<close>

fun fless :: "double \<Rightarrow> double \<Rightarrow> bool" where
  "fless (Fin a) (Fin b) = (a < b)"
| "fless NaN _ = False"
| "fless _ NaN = False"
| "fless _ NInf = False"
| "fless PInf _ = False"
| "fless _ _ = True"

definition fgreater :: "double \<Rightarrow> double \<Rightarrow> bool" where
  "fgreater a b = fless b a"

fun feq :: "double \<Rightarrow> double \<Rightarrow> bool" where
  "feq NaN _ = False"
| "feq _ NaN = False"
| "feq a b = (a = b)"

definition fge :: "double \<Rightarrow> double \<Rightarrow> bool" where
  "fge a b = (fless b a \<or> feq a b)"

definition fne :: "double \<Rightarrow> double \<Rightarrow> bool" where
  "fne a b = (\<not> feq a b)"

text \<open>\<^verbatim>\<open>std::min(a, b)\<close> is \<^verbatim>\<open>(b < a) ? b : a\<close>.\<close>

definition std_min :: "double \<Rightarrow> double \<Rightarrow> double" where
  "std_min a b = (if fless b a then b else a)"

section \<open>Single precision\<close>

text \<open>
  A \<^verbatim>\<open>float\<close> has a significand of 24 bits: between \<open>2 ^ e\<close> and \<open>2 ^ (e + 1)\<close> the
  floats are the multiples of \<open>2 ^ (e - 23)\<close>. \<open>float_round r\<close> is the float nearest to
  \<open>r\<close>, and of two floats equally near the one with the even significand (the default
  rounding of IEEE 754). The exponent range of \<^verbatim>\<open>float\<close> is not modelled: no overflow
  to infinity and no subnormal numbers. \<open>to_float\<close> is the conversion of a \<^verbatim>\<open>double\<close> to
  \<^verbatim>\<open>float\<close>.
\<close>

definition round_even :: "real \<Rightarrow> int" where
  "round_even q =
     (let n = \<lfloor>q\<rfloor>; r = q - real_of_int n
      in if r < 1 / 2 then n else if 1 / 2 < r then n + 1 else if even n then n else n + 1)"

definition pow2 :: "int \<Rightarrow> real" where
  "pow2 e = (if 0 \<le> e then 2 ^ nat e else 1 / 2 ^ nat (- e))"

definition float_round :: "real \<Rightarrow> real" where
  "float_round r =
     (if r = 0 then 0
      else (let e = \<lfloor>log 2 \<bar>r\<bar>\<rfloor>; ulp = pow2 (e - 23)
            in real_of_int (round_even (r / ulp)) * ulp))"

fun to_float :: "double \<Rightarrow> double" where
  "to_float (Fin a) = Fin (float_round a)"
| "to_float PInf = PInf"
| "to_float NInf = NInf"
| "to_float NaN = NaN"

section \<open>Lidar points and the lidar estimator\<close>

text \<open>
  \<^verbatim>\<open>LidarPoint\<close> has the fields \<^verbatim>\<open>x, y, z, r\<close> (position and reflectivity); the
  fields carry a prefix here so that they do not capture variable names.
\<close>

record LidarPoint =
  lp_x :: double
  lp_y :: double
  lp_z :: double
  lp_r :: double

text \<open>
  The sums of the first two loops of \<^verbatim>\<open>computeTTCLidar\<close>, written once for a frame
  (the source repeats them for the previous and the current frame).
\<close>

definition lidarXSum :: "LidarPoint list \<Rightarrow> double" where
  "lidarXSum pts = foldl (\<lambda>s p. fadd s (lp_x p)) (Fin 0) pts"

definition lidarXSqSum :: "LidarPoint list \<Rightarrow> double" where
  "lidarXSqSum pts = foldl (\<lambda>s p. fadd s (fmul (lp_x p) (lp_x p))) (Fin 0) pts"

definition lidarISum :: "LidarPoint list \<Rightarrow> double" where
  "lidarISum pts = foldl (\<lambda>s p. fadd s (lp_r p)) (Fin 0) pts"

definition lidarISqSum :: "LidarPoint list \<Rightarrow> double" where
  "lidarISqSum pts = foldl (\<lambda>s p. fadd s (fmul (lp_r p) (lp_r p))) (Fin 0) pts"

definition vsize :: "'a list \<Rightarrow> double" where
  "vsize xs = Fin (real (length xs))"

definition lidarXMean :: "LidarPoint list \<Rightarrow> double" where
  "lidarXMean pts = fdiv (lidarXSum pts) (vsize pts)"

definition lidarXStd :: "LidarPoint list \<Rightarrow> double" where
  "lidarXStd pts =
     fsqrt (fsub (fdiv (lidarXSqSum pts) (vsize pts)) (fmul (lidarXMean pts) (lidarXMean pts)))"

definition lidarIMean :: "LidarPoint list \<Rightarrow> double" where
  "lidarIMean pts = fdiv (lidarISum pts) (vsize pts)"

definition lidarIStd :: "LidarPoint list \<Rightarrow> double" where
  "lidarIStd pts =
     fsqrt (fsub (fdiv (lidarISqSum pts) (vsize pts)) (fmul (lidarIMean pts) (lidarIMean pts)))"

definition DistThreshold :: double where
  "DistThreshold = Fin 2"

text \<open>
  \<^verbatim>\<open>float DistThreshold = 2\<close> is exact; \<^verbatim>\<open>float intensityThreshold = 1.6\<close> holds the
  float nearest to 1.6, which is 13421773 / 2^23 = 1.60000002384185791015625.
\<close>

definition intensityThreshold :: double where
  "intensityThreshold = Fin (13421773 / 8388608)"

text \<open>The condition of the two closest-point loops, for a point of the frame \<open>pts\<close>.\<close>

definition inlier :: "LidarPoint list \<Rightarrow> LidarPoint \<Rightarrow> bool" where
  "inlier pts p \<longleftrightarrow>
     fgreater (lp_x p) (fsub (lidarXMean pts) (fmul DistThreshold (lidarXStd pts))) \<and>
     fless (lp_x p) (fadd (lidarXMean pts) (fmul DistThreshold (lidarXStd pts))) \<and>
     fgreater (lp_r p) (fsub (lidarIMean pts) (fmul intensityThreshold (lidarIStd pts))) \<and>
     fless (lp_r p) (fadd (lidarIMean pts) (fmul intensityThreshold (lidarIStd pts)))"

definition minX_init :: double where
  "minX_init = Fin 1000000000"

definition minX_step :: "LidarPoint list \<Rightarrow> double \<Rightarrow> LidarPoint \<Rightarrow> double" where
  "minX_step pts m p =
     (if inlier pts p then (if fgreater m (lp_x p) then lp_x p else m) else m)"

definition minX :: "LidarPoint list \<Rightarrow> double" where
  "minX pts = foldl (minX_step pts) minX_init pts"

text \<open>
  The reference parameters \<^verbatim>\<open>TTC\<close>, \<^verbatim>\<open>vehicleVel\<close> and \<^verbatim>\<open>vehicleAcc\<close>, and what the
  function writes to the console, are the state the function reads and returns.
  \<^verbatim>\<open>-1e9\<close> is the sentinel of a value not yet known.
\<close>

datatype console_line = Separator | VelAccLine double double double double | NotAbleToCalculate

record lidar_state =
  TTC :: double
  vehicleVel :: double
  vehicleAcc :: double
  console :: "console_line list"

definition unknown :: double where
  "unknown = Fin (- 1000000000)"

definition ttc_cv :: "double \<Rightarrow> double \<Rightarrow> double \<Rightarrow> double" where
  "ttc_cv minXPrev minXCurr dT = fdiv (fmul minXCurr dT) (fsub minXPrev minXCurr)"

text \<open>Lines 299 to 307: the acceleration is estimated once the velocity is known.\<close>

definition update_acc :: "double \<Rightarrow> double \<Rightarrow> double \<Rightarrow> lidar_state \<Rightarrow> lidar_state" where
  "update_acc minXPrev minXCurr dT st =
     (if fne (vehicleVel st) unknown \<and> feq (vehicleAcc st) unknown then
        (let vehicleVelCurr = fdiv (fsub minXPrev minXCurr) dT;
             acc = fdiv (fsub vehicleVelCurr (vehicleVel st)) dT
         in st\<lparr>vehicleAcc := acc,
               console := console st @
                 [Separator, VelAccLine vehicleVelCurr (vehicleVel st) dT acc, Separator]\<rparr>)
      else st)"

text \<open>Lines 316 to 343: the roots of the quadratic and the choice between them.\<close>

definition ttc_quadratic :: "double \<Rightarrow> lidar_state \<Rightarrow> lidar_state" where
  "ttc_quadratic minXCurr st =
     (let a = Fin 1;
          b = fdiv (vehicleVel st) (fmul (Fin (1 / 2)) (vehicleAcc st));
          c = fdiv (fneg minXCurr) (fmul (Fin (1 / 2)) (vehicleAcc st));
          d = fsub (fmul b b) (fmul (fmul (Fin 4) a) c)
      in if fgreater d (Fin 0) then
           (let TTC1 = fmul (fdiv (fsub (fneg b)
                         (fsqrt (fsub (fmul b b) (fmul (fmul (Fin 4) a) c)))) (Fin 2)) a;
                TTC2 = fmul (fdiv (fadd (fneg b)
                         (fsqrt (fsub (fmul b b) (fmul (fmul (Fin 4) a) c)))) (Fin 2)) a
            in if fgreater TTC1 (Fin 0) \<and> fgreater TTC2 (Fin 0) then st\<lparr>TTC := std_min TTC1 TTC2\<rparr>
               else if fgreater TTC1 (Fin 0) \<and> fless TTC2 (Fin 0) then st\<lparr>TTC := TTC1\<rparr>
               else if fless TTC1 (Fin 0) \<and> fgreater TTC2 (Fin 0) then st\<lparr>TTC := TTC2\<rparr>
               else st\<lparr>console := console st @ [NotAbleToCalculate]\<rparr>)
         else if feq d (Fin 0) then st\<lparr>TTC := fdiv b (fmul (Fin (- 2)) a)\<rparr>
         else st\<lparr>console := console st @ [NotAbleToCalculate]\<rparr>)"

text \<open>Lines 348 to 354: the velocity update of the constant acceleration model.\<close>

definition update_vel :: "double \<Rightarrow> double \<Rightarrow> double \<Rightarrow> lidar_state \<Rightarrow> lidar_state" where
  "update_vel minXPrev minXCurr dT st =
     (if feq (vehicleVel st) unknown \<and> feq (vehicleAcc st) unknown
      then st\<lparr>vehicleVel := fdiv (fsub minXPrev minXCurr) dT\<rparr>
      else st\<lparr>vehicleVel := fadd (vehicleVel st) (fmul (vehicleAcc st) dT)\<rparr>)"

text \<open>
  \<^verbatim>\<open>float dT = 1.0/frameRate\<close> (line 279): the quotient is rounded to single
  precision, and this value enters the arithmetic on doubles that follows.
\<close>

definition computeTTCLidar ::
  "LidarPoint list \<Rightarrow> LidarPoint list \<Rightarrow> double \<Rightarrow> lidar_state \<Rightarrow> int \<Rightarrow> lidar_state" where
  "computeTTCLidar lidarPointsPrev lidarPointsCurr frameRate st TTCcalModel =
     (let dT = to_float (fdiv (Fin 1) frameRate);
          minXPrev = minX lidarPointsPrev;
          minXCurr = minX lidarPointsCurr;
          st1 = update_acc minXPrev minXCurr dT st
      in if TTCcalModel = 0 then st1\<lparr>TTC := ttc_cv minXPrev minXCurr dT\<rparr>
         else
           (let st2 = (if feq (vehicleAcc st1) unknown
                       then st1\<lparr>TTC := ttc_cv minXPrev minXCurr dT\<rparr>
                       else ttc_quadratic minXCurr st1)
            in update_vel minXPrev minXCurr dT st2))"

section \<open>Keypoints, correspondences and rectangles\<close>

text \<open>
  \<^verbatim>\<open>cv::Point2f\<close>, \<^verbatim>\<open>cv::KeyPoint\<close> (of which only \<^verbatim>\<open>pt\<close> is read), \<^verbatim>\<open>cv::DMatch\<close>
  (of which only the two indices are read), \<^verbatim>\<open>cv::Point\<close> and \<^verbatim>\<open>cv::Rect\<close> with integer
  coordinates, and \<^verbatim>\<open>BoundingBox\<close> with the fields the five functions touch. The
  coordinates of a keypoint are floats, and their values are taken as given. An
  \<^verbatim>\<open>int\<close> is modelled as an unbounded integer, except in the one product of the
  program, the area of a rectangle, which is reduced to 32 bits.
\<close>

record Point2f =
  pt_x :: double
  pt_y :: double

record KeyPoint =
  pt :: Point2f

record DMatch =
  queryIdx :: int
  trainIdx :: int

record Point =
  pix_x :: int
  pix_y :: int

record Rect =
  rect_x :: int
  rect_y :: int
  rect_width :: int
  rect_height :: int

record BoundingBox =
  boxID :: int
  roi :: Rect
  lidarPoints :: "LidarPoint list"
  kptMatches :: "DMatch list"

text \<open>
  What ends a call other than its return: \<^verbatim>\<open>std::vector::at\<close> throws
  \<^verbatim>\<open>std::out_of_range\<close>, and an iterator moved before \<^verbatim>\<open>begin()\<close> or \<^verbatim>\<open>back()\<close> of an
  empty vector is undefined behaviour.
\<close>

datatype failure = out_of_range | undefined_behaviour

definition vec_at :: "'a list \<Rightarrow> int \<Rightarrow> failure + 'a" where
  "vec_at xs i = (if 0 \<le> i \<and> i < int (length xs) then Inr (xs ! nat i) else Inl out_of_range)"

text \<open>
  The difference of two points and \<^verbatim>\<open>cv::norm\<close> of a point (its Euclidean length).
  The difference of two \<^verbatim>\<open>Point2f\<close> is again a \<^verbatim>\<open>Point2f\<close>, so each coordinate of it
  is rounded to single precision; the norm is computed in \<^verbatim>\<open>double\<close>.
\<close>

definition psub :: "Point2f \<Rightarrow> Point2f \<Rightarrow> Point2f" where
  "psub a b = \<lparr>pt_x = to_float (fsub (pt_x a) (pt_x b)),
               pt_y = to_float (fsub (pt_y a) (pt_y b))\<rparr>"

definition cv_norm :: "Point2f \<Rightarrow> double" where
  "cv_norm p = fsqrt (fadd (fmul (pt_x p) (pt_x p)) (fmul (pt_y p) (pt_y p)))"

text \<open>A conversion of a finite floating-point value to \<^verbatim>\<open>int\<close> truncates towards zero.\<close>

definition to_int :: "real \<Rightarrow> int" where
  "to_int r = (if 0 \<le> r then \<lfloor>r\<rfloor> else \<lceil>r\<rceil>)"

text \<open>
  The shrunk rectangle, computed alike in \<^verbatim>\<open>clusterLidarWithROI\<close> (lines 40 to 44) and
  \<^verbatim>\<open>clusterKptMatchesWithROI\<close> (lines 159 to 163). \<^verbatim>\<open>shrinkFactor\<close> is a \<^verbatim>\<open>float\<close>, so
  \<^verbatim>\<open>shrinkFactor * roi.width\<close>, \<^verbatim>\<open>1 - shrinkFactor\<close> and \<^verbatim>\<open>roi.width * (1 - shrinkFactor)\<close>
  are computed in single precision, the \<^verbatim>\<open>int\<close> operand converted to \<^verbatim>\<open>float\<close>; the
  division by \<^verbatim>\<open>2.0\<close> and the sum with \<^verbatim>\<open>roi.x\<close> are computed in \<^verbatim>\<open>double\<close>. The four
  fields of \<^verbatim>\<open>smallerBox\<close> are integers, so each assignment truncates.
\<close>

definition smallerBox :: "real \<Rightarrow> Rect \<Rightarrow> Rect" where
  "smallerBox shrinkFactor r =
     \<lparr>rect_x = to_int (real_of_int (rect_x r) +
                float_round (shrinkFactor * float_round (real_of_int (rect_width r))) / 2),
      rect_y = to_int (real_of_int (rect_y r) +
                float_round (shrinkFactor * float_round (real_of_int (rect_height r))) / 2),
      rect_width = to_int (float_round (float_round (real_of_int (rect_width r)) *
                     float_round (1 - shrinkFactor))),
      rect_height = to_int (float_round (float_round (real_of_int (rect_height r)) *
                      float_round (1 - shrinkFactor)))\<rparr>"

text \<open>
  \<^verbatim>\<open>cv::Rect::contains\<close> for a point with integer coordinates, as OpenCV defines it:
  \<^verbatim>\<open>x <= pt.x && pt.x < x + width && y <= pt.y && pt.y < y + height\<close>. The left and
  the top edge belong to the rectangle, the right and the bottom edge do not.
\<close>

definition cv_contains :: "Rect \<Rightarrow> Point \<Rightarrow> bool" where
  "cv_contains r p \<longleftrightarrow>
     rect_x r \<le> pix_x p \<and> pix_x p < rect_x r + rect_width r \<and>
     rect_y r \<le> pix_y p \<and> pix_y p < rect_y r + rect_height r"

section \<open>clusterLidarWithROI\<close>

text \<open>
  The projection of a lidar point to its pixel (lines 24 to 34) is a product of the
  three calibration matrices the caller passes; the function takes it as the
  parameter \<open>project\<close>. \<^verbatim>\<open>shrinkFactor\<close> is the value of a \<^verbatim>\<open>float\<close>. A
  \<^verbatim>\<open>vector<BoundingBox>::iterator\<close> is an index into the vector.
\<close>

definition enclosingBoxes :: "real \<Rightarrow> BoundingBox list \<Rightarrow> Point \<Rightarrow> nat list" where
  "enclosingBoxes shrinkFactor boundingBoxes p =
     filter (\<lambda>it2. cv_contains (smallerBox shrinkFactor (roi (boundingBoxes ! it2))) p)
       [0 ..< length boundingBoxes]"

definition push_lidarPoint :: "LidarPoint \<Rightarrow> BoundingBox \<Rightarrow> BoundingBox" where
  "push_lidarPoint p b = b\<lparr>lidarPoints := lidarPoints b @ [p]\<rparr>"

definition cluster_point ::
  "(LidarPoint \<Rightarrow> Point) \<Rightarrow> real \<Rightarrow> BoundingBox list \<Rightarrow> LidarPoint \<Rightarrow> BoundingBox list" where
  "cluster_point project shrinkFactor boundingBoxes it1 =
     (case enclosingBoxes shrinkFactor boundingBoxes (project it1) of
        [i] \<Rightarrow> boundingBoxes[i := push_lidarPoint it1 (boundingBoxes ! i)]
      | _ \<Rightarrow> boundingBoxes)"

definition clusterLidarWithROI ::
  "(LidarPoint \<Rightarrow> Point) \<Rightarrow> BoundingBox list \<Rightarrow> LidarPoint list \<Rightarrow> real \<Rightarrow>
   BoundingBox list" where
  "clusterLidarWithROI project boundingBoxes lidarPoints_in shrinkFactor =
     foldl (cluster_point project shrinkFactor) boundingBoxes lidarPoints_in"

section \<open>clusterKptMatchesWithROI\<close>

text \<open>
  Here \<^verbatim>\<open>smallerBox.contains\<close> is called with a \<^verbatim>\<open>cv::Point2f\<close>. How OpenCV compares
  a point with float coordinates to a rectangle with integer coordinates depends on
  the version of the library (older versions first convert the point to integer
  coordinates); the function takes the test as the parameter \<open>contains\<close>.

  The displacement of a correspondence: both keypoints are fetched with \<^verbatim>\<open>at\<close>.
\<close>

definition match_dist :: "KeyPoint list \<Rightarrow> KeyPoint list \<Rightarrow> DMatch \<Rightarrow> failure + double" where
  "match_dist kptsPrev kptsCurr m =
     (case vec_at kptsCurr (trainIdx m) of
        Inl e \<Rightarrow> Inl e
      | Inr kpCurr \<Rightarrow>
          (case vec_at kptsPrev (queryIdx m) of
             Inl e \<Rightarrow> Inl e
           | Inr kpPrev \<Rightarrow> Inr (cv_norm (psub (pt kpCurr) (pt kpPrev)))))"

text \<open>The first loop (lines 143 to 150): the sums of the distances and of their squares.\<close>

fun dist_sums ::
  "KeyPoint list \<Rightarrow> KeyPoint list \<Rightarrow> DMatch list \<Rightarrow> double \<times> double \<Rightarrow> failure + double \<times> double" where
  "dist_sums kptsPrev kptsCurr [] acc = Inr acc"
| "dist_sums kptsPrev kptsCurr (m # ms) (distSum, distSqSum) =
     (case match_dist kptsPrev kptsCurr m of
        Inl e \<Rightarrow> Inl e
      | Inr d \<Rightarrow> dist_sums kptsPrev kptsCurr ms (fadd distSum d, fadd distSqSum (fmul d d)))"

text \<open>
  \<^verbatim>\<open>float distThreshold = 1.7\<close> holds the float nearest to 1.7, which is
  7130317 / 2^22 = 1.7000000476837158203125, and \<^verbatim>\<open>float shrinkFactor = 0.10\<close> the
  float nearest to 0.1, which is 13421773 / 2^27 = 0.100000001490116119384765625.
\<close>

definition distThreshold :: double where
  "distThreshold = Fin (7130317 / 4194304)"

text \<open>The second loop (lines 164 to 178), with the statistics of the first.\<close>

fun keep_matches ::
  "(Rect \<Rightarrow> Point2f \<Rightarrow> bool) \<Rightarrow> Rect \<Rightarrow> double \<Rightarrow> double \<Rightarrow>
   KeyPoint list \<Rightarrow> KeyPoint list \<Rightarrow> DMatch list \<Rightarrow> DMatch list \<Rightarrow> failure + DMatch list" where
  "keep_matches contains box distMean distStd kptsPrev kptsCurr [] acc = Inr acc"
| "keep_matches contains box distMean distStd kptsPrev kptsCurr (m # ms) acc =
     (case vec_at kptsCurr (trainIdx m) of
        Inl e \<Rightarrow> Inl e
      | Inr kpCurr \<Rightarrow>
          (case vec_at kptsPrev (queryIdx m) of
             Inl e \<Rightarrow> Inl e
           | Inr kpPrev \<Rightarrow>
               keep_matches contains box distMean distStd kptsPrev kptsCurr ms
                 (if contains box (pt kpCurr) \<and> contains box (pt kpPrev) then
                    (let dist = cv_norm (psub (pt kpCurr) (pt kpPrev))
                     in if fgreater dist (fsub distMean (fmul distThreshold distStd)) \<and>
                           fless dist (fadd distMean (fmul distThreshold distStd))
                        then acc @ [m] else acc)
                  else acc)))"

definition clusterKptMatchesWithROI ::
  "(Rect \<Rightarrow> Point2f \<Rightarrow> bool) \<Rightarrow> BoundingBox \<Rightarrow> KeyPoint list \<Rightarrow> KeyPoint list \<Rightarrow>
   DMatch list \<Rightarrow> failure + BoundingBox" where
  "clusterKptMatchesWithROI contains boundingBox kptsPrev kptsCurr kptMatches_in =
     (case dist_sums kptsPrev kptsCurr kptMatches_in (Fin 0, Fin 0) of
        Inl e \<Rightarrow> Inl e
      | Inr (distSum, distSqSum) \<Rightarrow>
          (let distMean = fdiv distSum (vsize kptMatches_in);
               distStd = fsqrt (fsub (fdiv distSqSum (vsize kptMatches_in)) (fmul distMean distMean));
               shrinkFactor = 13421773 / 134217728
           in case keep_matches contains (smallerBox shrinkFactor (roi boundingBox)) distMean distStd
                     kptsPrev kptsCurr kptMatches_in (kptMatches boundingBox) of
                Inl e \<Rightarrow> Inl e
              | Inr ms \<Rightarrow> Inr (boundingBox\<lparr>kptMatches := ms\<rparr>)))"

section \<open>computeTTCCamera\<close>

definition minDist :: double where
  "minDist = Fin 100"

text \<open>\<^verbatim>\<open>std::numeric_limits<double>::epsilon()\<close>.\<close>

definition epsilon :: double where
  "epsilon = Fin (1 / 2 ^ 52)"

text \<open>The inner loop (lines 198 to 217), over the correspondences from the second on.\<close>

fun inner_loop ::
  "KeyPoint list \<Rightarrow> KeyPoint list \<Rightarrow> KeyPoint \<Rightarrow> KeyPoint \<Rightarrow> DMatch list \<Rightarrow> double list \<Rightarrow>
   failure + double list" where
  "inner_loop kptsPrev kptsCurr kpOuterCurr kpOuterPrev [] distRatios = Inr distRatios"
| "inner_loop kptsPrev kptsCurr kpOuterCurr kpOuterPrev (it2 # rest) distRatios =
     (case vec_at kptsCurr (trainIdx it2) of
        Inl e \<Rightarrow> Inl e
      | Inr kpInnerCurr \<Rightarrow>
          (case vec_at kptsPrev (queryIdx it2) of
             Inl e \<Rightarrow> Inl e
           | Inr kpInnerPrev \<Rightarrow>
               (let distCurr = cv_norm (psub (pt kpOuterCurr) (pt kpInnerCurr));
                    distPrev = cv_norm (psub (pt kpOuterPrev) (pt kpInnerPrev))
                in inner_loop kptsPrev kptsCurr kpOuterCurr kpOuterPrev rest
                     (if fgreater distPrev epsilon \<and> fge distCurr minDist
                      then distRatios @ [fdiv distCurr distPrev] else distRatios))))"

text \<open>
  The outer loop (lines 191 to 218), over the correspondences up to the last but one;
  \<open>inner\<close> is the range of the inner loop, the same at every round.
\<close>

fun outer_loop ::
  "KeyPoint list \<Rightarrow> KeyPoint list \<Rightarrow> DMatch list \<Rightarrow> DMatch list \<Rightarrow> double list \<Rightarrow>
   failure + double list" where
  "outer_loop kptsPrev kptsCurr [] inner distRatios = Inr distRatios"
| "outer_loop kptsPrev kptsCurr (it1 # rest) inner distRatios =
     (case vec_at kptsCurr (trainIdx it1) of
        Inl e \<Rightarrow> Inl e
      | Inr kpOuterCurr \<Rightarrow>
          (case vec_at kptsPrev (queryIdx it1) of
             Inl e \<Rightarrow> Inl e
           | Inr kpOuterPrev \<Rightarrow>
               (case inner_loop kptsPrev kptsCurr kpOuterCurr kpOuterPrev inner distRatios of
                  Inl e \<Rightarrow> Inl e
                | Inr distRatios' \<Rightarrow> outer_loop kptsPrev kptsCurr rest inner distRatios')))"

text \<open>\<^verbatim>\<open>std::sort\<close> with \<^verbatim>\<open><\<close>, as an insertion sort (the ratios it sorts are no NaN).\<close>

fun insort_double :: "double \<Rightarrow> double list \<Rightarrow> double list" where
  "insort_double a [] = [a]"
| "insort_double a (b # bs) = (if fless b a then b # insort_double a bs else a # b # bs)"

definition sort_double :: "double list \<Rightarrow> double list" where
  "sort_double xs = foldr insort_double xs []"

definition medianDistRatio :: "double list \<Rightarrow> double" where
  "medianDistRatio distRatios =
     (let sorted = sort_double distRatios; n = length sorted
      in if n mod 2 = 1 then sorted ! (n div 2)
         else fdiv (fadd (sorted ! (n div 2)) (sorted ! ((n - 1) div 2))) (Fin 2))"

text \<open>
  With an empty \<open>kptMatches\<close> the bound \<^verbatim>\<open>kptMatches.end() - 1\<close> of the outer loop lies
  before \<^verbatim>\<open>begin()\<close>: the loop does not stop at it and reads outside the vector.
\<close>

definition computeTTCCamera ::
  "KeyPoint list \<Rightarrow> KeyPoint list \<Rightarrow> DMatch list \<Rightarrow> double \<Rightarrow> failure + double" where
  "computeTTCCamera kptsPrev kptsCurr kptMatches_in frameRate =
     (if kptMatches_in = [] then Inl undefined_behaviour
      else
        (case outer_loop kptsPrev kptsCurr (butlast kptMatches_in) (tl kptMatches_in) [] of
           Inl e \<Rightarrow> Inl e
         | Inr distRatios \<Rightarrow>
             if length distRatios = 0 then Inr NaN
             else
               (let dT = fdiv (Fin 1) frameRate
                in Inr (fdiv (fneg dT) (fsub (Fin 1) (medianDistRatio distRatios))))))"

section \<open>matchBoundingBoxes\<close>

text \<open>
  The operators \<^verbatim>\<open>&\<close> and \<^verbatim>\<open>|\<close> on rectangles, as OpenCV defines them: \<^verbatim>\<open>a & b\<close> is the
  common part of the two rectangles, and the empty rectangle \<^verbatim>\<open>Rect()\<close> if there is
  none; \<^verbatim>\<open>a | b\<close> is the smallest rectangle that holds both (it is \<open>b\<close> if \<open>a\<close> is empty
  and \<open>a\<close> if \<open>b\<close> is empty), which has more pixels than the union of the two unless
  the union is itself a rectangle.
\<close>

definition cv_rect_and :: "Rect \<Rightarrow> Rect \<Rightarrow> Rect" where
  "cv_rect_and a b =
     (let x1 = max (rect_x a) (rect_x b);
          y1 = max (rect_y a) (rect_y b);
          w = min (rect_x a + rect_width a) (rect_x b + rect_width b) - x1;
          h = min (rect_y a + rect_height a) (rect_y b + rect_height b) - y1
      in if w \<le> 0 \<or> h \<le> 0
         then \<lparr>rect_x = 0, rect_y = 0, rect_width = 0, rect_height = 0\<rparr>
         else \<lparr>rect_x = x1, rect_y = y1, rect_width = w, rect_height = h\<rparr>)"

definition rect_empty :: "Rect \<Rightarrow> bool" where
  "rect_empty r \<longleftrightarrow> rect_width r \<le> 0 \<or> rect_height r \<le> 0"

definition cv_rect_or :: "Rect \<Rightarrow> Rect \<Rightarrow> Rect" where
  "cv_rect_or a b =
     (if rect_empty a then b
      else if rect_empty b then a
      else
        (let x1 = min (rect_x a) (rect_x b);
             y1 = min (rect_y a) (rect_y b)
         in \<lparr>rect_x = x1, rect_y = y1,
             rect_width = max (rect_x a + rect_width a) (rect_x b + rect_width b) - x1,
             rect_height = max (rect_y a + rect_height a) (rect_y b + rect_height b) - y1\<rparr>))"

text \<open>
  \<^verbatim>\<open>cv::Rect::area\<close> is \<^verbatim>\<open>width * height\<close>, a product of two \<^verbatim>\<open>int\<close>: a product outside
  the range of 32 bits wraps around (two's complement, as the compilers of the
  program's platforms produce it; the standard leaves the overflow undefined).
  \<^verbatim>\<open>DataFrame\<close> is modelled by the one field that is read.
\<close>

record DataFrame =
  boundingBoxes :: "BoundingBox list"

definition int32 :: "int \<Rightarrow> int" where
  "int32 n = (n + 2147483648) mod 4294967296 - 2147483648"

definition area :: "Rect \<Rightarrow> int" where
  "area r = int32 (rect_width r * rect_height r)"

text \<open>
  \<^verbatim>\<open>float IOUThreshold = 0.7\<close> holds the float nearest to 0.7, which is
  11744051 / 2^24 = 0.699999988079071044921875. \<^verbatim>\<open>IOURatio\<close> is a \<^verbatim>\<open>float\<close>: the area
  of \<^verbatim>\<open>a | b\<close> is converted to \<^verbatim>\<open>float\<close>, the area of \<^verbatim>\<open>a & b\<close> is converted to
  \<^verbatim>\<open>float\<close> for the division, and the quotient is rounded to single precision. The
  initial \<^verbatim>\<open>maxIOURatio = -1e9\<close> is a float as it stands.
\<close>

definition IOUThreshold :: double where
  "IOUThreshold = Fin (11744051 / 16777216)"

definition IOURatio :: "Rect \<Rightarrow> Rect \<Rightarrow> double" where
  "IOURatio a b =
     to_float (fdiv (to_float (Fin (real_of_int (area (cv_rect_and a b)))))
                    (to_float (Fin (real_of_int (area (cv_rect_or a b))))))"

text \<open>The inner loop (lines 367 to 376): the running maximum and the pairs pushed so far.\<close>

definition iou_step ::
  "BoundingBox \<Rightarrow> double \<times> (BoundingBox \<times> BoundingBox) list \<Rightarrow> BoundingBox \<Rightarrow>
   double \<times> (BoundingBox \<times> BoundingBox) list" where
  "iou_step it1 s it2 =
     (case s of (maxIOURatio, boundingBoxPairs) \<Rightarrow>
        if fgreater (IOURatio (roi it1) (roi it2)) maxIOURatio
        then (IOURatio (roi it1) (roi it2), boundingBoxPairs @ [(it1, it2)])
        else (maxIOURatio, boundingBoxPairs))"

text \<open>\<^verbatim>\<open>std::map::insert\<close> leaves the map as it is when the key is present.\<close>

definition map_insert :: "(int \<rightharpoonup> int) \<Rightarrow> int \<Rightarrow> int \<Rightarrow> (int \<rightharpoonup> int)" where
  "map_insert m k v = (case m k of None \<Rightarrow> m(k \<mapsto> v) | Some _ \<Rightarrow> m)"

text \<open>
  One round of the outer loop (lines 365 to 382): the vector of pairs is empty at
  its start, as it is cleared at the end of every round.
\<close>

definition match_one ::
  "BoundingBox list \<Rightarrow> (int \<rightharpoonup> int) \<Rightarrow> BoundingBox \<Rightarrow> failure + (int \<rightharpoonup> int)" where
  "match_one currBoxes bbBestMatches it1 =
     (case foldl (iou_step it1) (Fin (- 1000000000), []) currBoxes of
        (maxIOURatio, boundingBoxPairs) \<Rightarrow>
          if fgreater maxIOURatio IOUThreshold then
            (if boundingBoxPairs = [] then Inl undefined_behaviour
             else Inr (map_insert bbBestMatches (boxID (fst (last boundingBoxPairs)))
                         (boxID (snd (last boundingBoxPairs)))))
          else Inr bbBestMatches)"

fun match_all ::
  "BoundingBox list \<Rightarrow> (int \<rightharpoonup> int) \<Rightarrow> BoundingBox list \<Rightarrow> failure + (int \<rightharpoonup> int)" where
  "match_all currBoxes bbBestMatches [] = Inr bbBestMatches"
| "match_all currBoxes bbBestMatches (it1 # rest) =
     (case match_one currBoxes bbBestMatches it1 of
        Inl e \<Rightarrow> Inl e
      | Inr bb \<Rightarrow> match_all currBoxes bb rest)"

definition matchBoundingBoxes ::
  "DMatch list \<Rightarrow> (int \<rightharpoonup> int) \<Rightarrow> DataFrame \<Rightarrow> DataFrame \<Rightarrow> failure + (int \<rightharpoonup> int)" where
  "matchBoundingBoxes matches bbBestMatches prevFrame currFrame =
     match_all (boundingBoxes currFrame) bbBestMatches (boundingBoxes prevFrame)"

section \<open>The driver's use of the estimators\<close>

text \<open>
  \<^verbatim>\<open>FinalProject_Camera.cpp\<close> sets \<^verbatim>\<open>vehicleVel\<close> and \<^verbatim>\<open>vehicleAcc\<close> to \<^verbatim>\<open>-1e9\<close> before
  the loop over the images (lines 113 and 114) and calls \<^verbatim>\<open>computeTTCLidar\<close> once for
  every matched pair of boxes with the same two variables. Its local \<^verbatim>\<open>ttcLidar\<close> is
  not initialised; the \<open>TTC\<close> field of the state stands for the content of that
  variable, and \<open>driver_init\<close> picks 0 for it.
\<close>

definition driver_init :: lidar_state where
  "driver_init = \<lparr>TTC = Fin 0, vehicleVel = unknown, vehicleAcc = unknown, console = []\<rparr>"

definition lidar_run ::
  "int \<Rightarrow> double \<Rightarrow> (LidarPoint list \<times> LidarPoint list) list \<Rightarrow> lidar_state \<Rightarrow> lidar_state" where
  "lidar_run TTCcalModel frameRate calls st =
     foldl (\<lambda>s (ptsPrev, ptsCurr). computeTTCLidar ptsPrev ptsCurr frameRate s TTCcalModel)
       st calls"

text \<open>
  Lines 365 to 383 of the driver, for one matched pair: both estimators run only if
  both boxes hold lidar points, and then their results are appended to the two result
  vectors. An exception or undefined behaviour ends the run.
\<close>

record TTCresult =
  lidarBasedTTC :: "double list"
  cameraBasedTTC :: "double list"

definition compute_pair ::
  "(Rect \<Rightarrow> Point2f \<Rightarrow> bool) \<Rightarrow> BoundingBox \<Rightarrow> BoundingBox \<Rightarrow> KeyPoint list \<Rightarrow> KeyPoint list \<Rightarrow>
   DMatch list \<Rightarrow> double \<Rightarrow> int \<Rightarrow> lidar_state \<times> TTCresult \<Rightarrow>
   failure + (lidar_state \<times> TTCresult) \<times> BoundingBox" where
  "compute_pair contains prevBB currBB kptsPrev kptsCurr kptMatches_in sensorFrameRate
     TTCcalModel s =
     (case s of (st, res) \<Rightarrow>
        if length (lidarPoints currBB) > 0 \<and> length (lidarPoints prevBB) > 0 then
          (let st1 = computeTTCLidar (lidarPoints prevBB) (lidarPoints currBB)
                       sensorFrameRate st TTCcalModel
           in case clusterKptMatchesWithROI contains currBB kptsPrev kptsCurr kptMatches_in of
                Inl e \<Rightarrow> Inl e
              | Inr currBB' \<Rightarrow>
                  (case computeTTCCamera kptsPrev kptsCurr (kptMatches currBB') sensorFrameRate of
                     Inl e \<Rightarrow> Inl e
                   | Inr ttcCamera \<Rightarrow>
                       Inr ((st1, res\<lparr>lidarBasedTTC := lidarBasedTTC res @ [TTC st1],
                                     cameraBasedTTC := cameraBasedTTC res @ [ttcCamera]\<rparr>),
                            currBB')))
        else Inr ((st, res), currBB))"

section \<open>The notions of the specification\<close>

text \<open>
  The real number a finite value stands for, and the statistics the specification
  names: the mean and the (population) standard deviation of a list of reals, and the
  open band of \<open>k\<close> standard deviations around the mean.
\<close>

fun is_fin :: "double \<Rightarrow> bool" where
  "is_fin (Fin a) = True"
| "is_fin _ = False"

fun fin_val :: "double \<Rightarrow> real" where
  "fin_val (Fin a) = a"
| "fin_val _ = 0"













text \<open>
  The three kinematic states of the specification, read off the two sentinels the
  way the code tests them.
\<close>

datatype KinematicState = Uninitialized | VelocityKnown | VelocityAndAccelerationKnown

definition kstate :: "lidar_state \<Rightarrow> KinematicState" where
  "kstate st =
     (if feq (vehicleAcc st) unknown
      then (if feq (vehicleVel st) unknown then Uninitialized else VelocityKnown)
      else VelocityAndAccelerationKnown)"

fun krank :: "KinematicState \<Rightarrow> nat" where
  "krank Uninitialized = 0"
| "krank VelocityKnown = 1"
| "krank VelocityAndAccelerationKnown = 2"

text \<open>
  The camera estimator in the specification's words: one ratio for every unordered
  pair of correspondences that passes the two thresholds, and the median of these.
\<close>

fun unordered_pairs :: "'a list \<Rightarrow> ('a \<times> 'a) list" where
  "unordered_pairs [] = []"
| "unordered_pairs (x # xs) = map (Pair x) xs @ unordered_pairs xs"

definition pair_ratio :: "KeyPoint list \<Rightarrow> KeyPoint list \<Rightarrow> DMatch \<times> DMatch \<Rightarrow> double list" where
  "pair_ratio kptsPrev kptsCurr mm =
     (let distCurr = cv_norm (psub (pt (kptsCurr ! nat (trainIdx (fst mm))))
                                   (pt (kptsCurr ! nat (trainIdx (snd mm)))));
          distPrev = cv_norm (psub (pt (kptsPrev ! nat (queryIdx (fst mm))))
                                   (pt (kptsPrev ! nat (queryIdx (snd mm)))))
      in if fgreater distPrev epsilon \<and> fge distCurr minDist then [fdiv distCurr distPrev] else [])"

definition computeTTCCamera_spec ::
  "KeyPoint list \<Rightarrow> KeyPoint list \<Rightarrow> DMatch list \<Rightarrow> double \<Rightarrow> double" where
  "computeTTCCamera_spec kptsPrev kptsCurr ms frameRate =
     (let ratios = concat (map (pair_ratio kptsPrev kptsCurr) (unordered_pairs ms))
      in if ratios = [] then NaN
         else fdiv (fneg (fdiv (Fin 1) frameRate)) (fsub (Fin 1) (medianDistRatio ratios)))"

text \<open>
  The shrunk rectangle in explicit terms, for a shrink factor \<open>s\<close>, a rectangle at
  \<open>x\<close> of width \<open>w\<close> (respectively at \<open>y\<close> of height \<open>h\<close>): the left edge is
  \<open>x + s w / 2\<close> cut to a whole number towards zero, the width is \<open>w (1 - s)\<close> cut to a
  whole number towards zero, where the product \<open>s w\<close>, the difference \<open>1 - s\<close> and the
  product \<open>w (1 - s)\<close> are each rounded to single precision. \<open>in_rect\<close>: the pixel lies
  in the columns \<open>x\<close> up to \<open>x + w - 1\<close> and the rows \<open>y\<close> up to \<open>y + h - 1\<close>.
\<close>

definition shrunk_lo :: "real \<Rightarrow> int \<Rightarrow> int \<Rightarrow> int" where
  "shrunk_lo s x w =
     (let v = real_of_int x + float_round (s * float_round (real_of_int w)) / 2
      in if v < 0 then - \<lfloor>- v\<rfloor> else \<lfloor>v\<rfloor>)"

definition shrunk_len :: "real \<Rightarrow> int \<Rightarrow> int" where
  "shrunk_len s w =
     (let v = float_round (float_round (real_of_int w) * float_round (1 - s))
      in if v < 0 then - \<lfloor>- v\<rfloor> else \<lfloor>v\<rfloor>)"

definition shrunk :: "real \<Rightarrow> Rect \<Rightarrow> Rect" where
  "shrunk s r =
     \<lparr>rect_x = shrunk_lo s (rect_x r) (rect_width r),
      rect_y = shrunk_lo s (rect_y r) (rect_height r),
      rect_width = shrunk_len s (rect_width r),
      rect_height = shrunk_len s (rect_height r)\<rparr>"

text \<open>\<open>cut20 n\<close> is \<open>n / 20\<close> cut to a whole number towards zero.\<close>

definition cut20 :: "int \<Rightarrow> int" where
  "cut20 n = (if 0 \<le> n then n div 20 else - ((- n) div 20))"

definition in_rect :: "Rect \<Rightarrow> Point \<Rightarrow> bool" where
  "in_rect r p \<longleftrightarrow>
     pix_x p \<in> {rect_x r ..< rect_x r + rect_width r} \<and>
     pix_y p \<in> {rect_y r ..< rect_y r + rect_height r}"

text \<open>
  \<open>sole_box\<close>: the pixel lies in the shrunk rectangle of box \<open>i\<close> and in that of no other
  box of the frame.
\<close>

definition sole_box :: "real \<Rightarrow> BoundingBox list \<Rightarrow> Point \<Rightarrow> nat \<Rightarrow> bool" where
  "sole_box s boxes px i \<longleftrightarrow>
     i < length boxes \<and> in_rect (shrunk s (roi (boxes ! i))) px \<and>
     (\<forall>j < length boxes. in_rect (shrunk s (roi (boxes ! j))) px \<longrightarrow> j = i)"

text \<open>
  The shrunk rectangle in the specification's words: each side moved inwards by
  \<open>s / 2\<close> of that dimension. \<open>inset_open\<close>: the position lies strictly inside it;
  \<open>inset_closed\<close>: the position lies inside it or on its edge.
\<close>

definition inset_open :: "real \<Rightarrow> Rect \<Rightarrow> real \<Rightarrow> real \<Rightarrow> bool" where
  "inset_open s r px py \<longleftrightarrow>
     real_of_int (rect_x r) + s * real_of_int (rect_width r) / 2 < px \<and>
     px < real_of_int (rect_x r) + real_of_int (rect_width r) - s * real_of_int (rect_width r) / 2 \<and>
     real_of_int (rect_y r) + s * real_of_int (rect_height r) / 2 < py \<and>
     py < real_of_int (rect_y r) + real_of_int (rect_height r) - s * real_of_int (rect_height r) / 2"

definition inset_closed :: "real \<Rightarrow> Rect \<Rightarrow> real \<Rightarrow> real \<Rightarrow> bool" where
  "inset_closed s r px py \<longleftrightarrow>
     real_of_int (rect_x r) + s * real_of_int (rect_width r) / 2 \<le> px \<and>
     px \<le> real_of_int (rect_x r) + real_of_int (rect_width r) - s * real_of_int (rect_width r) / 2 \<and>
     real_of_int (rect_y r) + s * real_of_int (rect_height r) / 2 \<le> py \<and>
     py \<le> real_of_int (rect_y r) + real_of_int (rect_height r) - s * real_of_int (rect_height r) / 2"





text \<open>
  Intersection over union in the specification's words: the area of the common part
  of two rectangles over the area of their union, which is the sum of the two areas
  less the area of the common part.
\<close>

definition common_area :: "Rect \<Rightarrow> Rect \<Rightarrow> int" where
  "common_area a b =
     max 0 (min (rect_x a + rect_width a) (rect_x b + rect_width b) - max (rect_x a) (rect_x b)) *
     max 0 (min (rect_y a + rect_height a) (rect_y b + rect_height b) - max (rect_y a) (rect_y b))"

definition iou :: "Rect \<Rightarrow> Rect \<Rightarrow> real" where
  "iou a b =
     real_of_int (common_area a b) /
     real_of_int (rect_width a * rect_height a + rect_width b * rect_height b - common_area a b)"

text \<open>
  The ratio the program computes, as a real number; \<open>first_max r cs c\<close>: \<open>c\<close> is the
  first box of \<open>cs\<close> at which \<open>r\<close> is largest; \<open>recorded r cs v\<close>: \<open>v\<close> is the id of that
  box if its ratio exceeds the threshold, and there is no entry if no ratio does.
\<close>

definition ratio :: "BoundingBox \<Rightarrow> BoundingBox \<Rightarrow> real" where
  "ratio p c = fin_val (IOURatio (roi p) (roi c))"

definition first_max :: "(BoundingBox \<Rightarrow> real) \<Rightarrow> BoundingBox list \<Rightarrow> BoundingBox \<Rightarrow> bool" where
  "first_max r cs c \<longleftrightarrow>
     (\<exists>ys zs. cs = ys @ c # zs \<and> (\<forall>y\<in>set ys. r y < r c) \<and> (\<forall>z\<in>set zs. r z \<le> r c))"

definition recorded :: "(BoundingBox \<Rightarrow> real) \<Rightarrow> BoundingBox list \<Rightarrow> int option \<Rightarrow> bool" where
  "recorded r cs v \<longleftrightarrow>
     (\<exists>c. first_max r cs c \<and> 11744051 / 16777216 < r c \<and> v = Some (boxID c)) \<or>
     ((\<forall>c\<in>set cs. r c \<le> 11744051 / 16777216) \<and> v = None)"

section \<open>Concrete inputs\<close>

text \<open>Points, keypoints, correspondences and boxes for the evaluations below.\<close>

definition lidar_pt :: "real \<Rightarrow> real \<Rightarrow> LidarPoint" where
  "lidar_pt a b = \<lparr>lp_x = Fin a, lp_y = Fin 0, lp_z = Fin 0, lp_r = Fin b\<rparr>"

definition kp :: "real \<Rightarrow> real \<Rightarrow> KeyPoint" where
  "kp a b = \<lparr>pt = \<lparr>pt_x = Fin a, pt_y = Fin b\<rparr>\<rparr>"

definition dm :: "int \<Rightarrow> int \<Rightarrow> DMatch" where
  "dm q t = \<lparr>queryIdx = q, trainIdx = t\<rparr>"

definition mk_box :: "int \<Rightarrow> int \<Rightarrow> int \<Rightarrow> int \<Rightarrow> int \<Rightarrow> BoundingBox" where
  "mk_box i x y w h =
     \<lparr>boxID = i, roi = \<lparr>rect_x = x, rect_y = y, rect_width = w, rect_height = h\<rparr>,
      lidarPoints = [], kptMatches = []\<rparr>"

text \<open>
  Instances of the two parameters, for the evaluations: a projection that takes the
  x and y of a lidar point for its pixel, and the two forms of the containment test
  for a position with float coordinates. \<open>cv_contains_f\<close> compares the coordinates as
  they are, left and top edge inclusive, right and bottom edge exclusive, as the
  newer versions of OpenCV do; \<open>cv_contains_round\<close> first converts the position to
  integer coordinates, rounding to the nearest whole number and a tie to the even
  one, as the older versions do. \<open>shrink10\<close> is the float nearest to 0.1, the shrink
  factor the driver passes to \<^verbatim>\<open>clusterLidarWithROI\<close> (line 176).
\<close>

definition flat_project :: "LidarPoint \<Rightarrow> Point" where
  "flat_project p = \<lparr>pix_x = to_int (fin_val (lp_x p)), pix_y = to_int (fin_val (lp_y p))\<rparr>"

definition cv_contains_f :: "Rect \<Rightarrow> Point2f \<Rightarrow> bool" where
  "cv_contains_f r p \<longleftrightarrow>
     real_of_int (rect_x r) \<le> fin_val (pt_x p) \<and>
     fin_val (pt_x p) < real_of_int (rect_x r + rect_width r) \<and>
     real_of_int (rect_y r) \<le> fin_val (pt_y p) \<and>
     fin_val (pt_y p) < real_of_int (rect_y r + rect_height r)"


definition shrink10 :: real where
  "shrink10 = 13421773 / 134217728"

text \<open>A lidar point given by its x and y, and the frames of the evaluations.\<close>

definition pxy :: "real \<Rightarrow> real \<Rightarrow> LidarPoint" where
  "pxy a b = \<lparr>lp_x = Fin a, lp_y = Fin b, lp_z = Fin 0, lp_r = Fin 0\<rparr>"

definition boxes3 :: "BoundingBox list" where
  "boxes3 = [mk_box 0 0 0 100 100, mk_box 1 90 0 15 15, mk_box 2 (- 5) 200 15 15]"

definition points9 :: "LidarPoint list" where
  "points9 = [pxy 94 50, pxy 92 6, pxy 90 0, pxy 103 5, pxy 95 50, pxy 5 5, pxy (- 5) 205,
              pxy (- 4) 205, pxy 8 212]"





definition kpsPrev4 :: "KeyPoint list" where
  "kpsPrev4 = [kp 0 0, kp 100 0, kp 300 0, kp 600 0]"

definition kpsCurr4 :: "KeyPoint list" where
  "kpsCurr4 = [kp 0 0, kp 110 0, kp 340 0, kp 700 0]"

definition matches4 :: "DMatch list" where
  "matches4 = [dm 0 0, dm 1 1, dm 2 2, dm 3 3]"

section \<open>Properties of the rounding to single precision\<close>

lemma pow2_powr: "pow2 e = 2 powr (real_of_int e)"
  by (simp add: pow2_def powr_real_of_int inverse_eq_divide)

lemma pow2_pos: "0 < pow2 e"
  by (simp add: pow2_powr)

lemma floor_log2:
  assumes "pow2 e \<le> r" "r < pow2 (e + 1)"
  shows "\<lfloor>log 2 r\<rfloor> = e"
proof -
  have r: "0 < r" using assms(1) pow2_pos[of e] by linarith
  have a: "real_of_int e \<le> log 2 r"
    using assms(1) r by (simp add: le_log_iff pow2_powr)
  have b: "log 2 r < real_of_int e + 1"
    using assms(2) r by (simp add: log_less_iff pow2_powr)
  show ?thesis using a b by linarith
qed

text \<open>The value of \<open>float_round\<close> at a number whose binary exponent is known.\<close>

lemma float_round_binade:
  assumes "pow2 e \<le> \<bar>r\<bar>" "\<bar>r\<bar> < pow2 (e + 1)"
  shows "float_round r = real_of_int (round_even (r / pow2 (e - 23))) * pow2 (e - 23)"
proof -
  have "r \<noteq> 0" using assms(1) pow2_pos[of e] by auto
  then show ?thesis
    by (simp add: float_round_def Let_def floor_log2[OF assms])
qed

lemma round_even_ge: "\<lfloor>q\<rfloor> \<le> round_even q"
  by (simp add: round_even_def Let_def)

lemma round_even_of_int: "round_even (real_of_int m) = m"
  by (simp add: round_even_def Let_def)

text \<open>The rounding moves a number by at most half a unit of its last place.\<close>

lemma round_even_error: "\<bar>real_of_int (round_even q) - q\<bar> \<le> 1 / 2"
proof -
  have "real_of_int \<lfloor>q\<rfloor> \<le> q" "q < real_of_int \<lfloor>q\<rfloor> + 1" by linarith+
  then show ?thesis by (auto simp: round_even_def Let_def)
qed

lemma float_round_error: "\<bar>float_round r - r\<bar> \<le> \<bar>r\<bar> / 16777216"
proof (cases "r = 0")
  case True
  then show ?thesis by (simp add: float_round_def)
next
  case False
  define e where "e = \<lfloor>log 2 \<bar>r\<bar>\<rfloor>"
  define ulp where "ulp = pow2 (e - 23)"
  have u: "0 < ulp" unfolding ulp_def by (rule pow2_pos)
  have "real_of_int e \<le> log 2 \<bar>r\<bar>" unfolding e_def by simp
  then have lo: "pow2 e \<le> \<bar>r\<bar>" using False by (simp add: le_log_iff pow2_powr)
  have "pow2 e / pow2 (e - 23) = 2 ^ 23"
    by (simp add: pow2_powr powr_diff[symmetric])
  then have pe: "pow2 e = 8388608 * ulp" using u by (simp add: ulp_def field_simps)
  have fr: "float_round r = real_of_int (round_even (r / ulp)) * ulp"
    using False by (simp add: float_round_def Let_def e_def[symmetric] ulp_def)
  have "float_round r - r = (real_of_int (round_even (r / ulp)) - r / ulp) * ulp"
    using u by (simp add: fr field_simps)
  then have "\<bar>float_round r - r\<bar> = \<bar>real_of_int (round_even (r / ulp)) - r / ulp\<bar> * ulp"
    using u by (simp add: abs_mult)
  also have "\<dots> \<le> (1 / 2) * ulp"
    using round_even_error[of "r / ulp"] u by (simp add: mult_right_mono)
  also have "\<dots> = pow2 e / 16777216" by (simp add: pe)
  also have "\<dots> \<le> \<bar>r\<bar> / 16777216" using lo by (simp add: divide_right_mono)
  finally show ?thesis .
qed

text \<open>The rounding keeps the sign of a positive number.\<close>

lemma float_round_pos:
  assumes "0 < r"
  shows "0 < float_round r"
proof -
  define e where "e = \<lfloor>log 2 r\<rfloor>"
  have r: "r \<noteq> 0" "\<bar>r\<bar> = r" using assms by auto
  have "real_of_int e \<le> log 2 r" unfolding e_def by simp
  then have "pow2 e \<le> r" using assms by (simp add: le_log_iff pow2_powr)
  then have "pow2 e / pow2 (e - 23) \<le> r / pow2 (e - 23)"
    using pow2_pos[of "e - 23"] by (simp add: divide_right_mono)
  moreover have "pow2 e / pow2 (e - 23) = 2 ^ 23"
    by (simp add: pow2_powr powr_diff[symmetric])
  ultimately have "(8388608::real) \<le> r / pow2 (e - 23)" by simp
  then have "8388608 \<le> \<lfloor>r / pow2 (e - 23)\<rfloor>" by (simp add: le_floor_iff)
  then have "0 < round_even (r / pow2 (e - 23))"
    using round_even_ge[of "r / pow2 (e - 23)"] by linarith
  then show ?thesis
    using r pow2_pos[of "e - 23"] by (simp add: float_round_def Let_def e_def[symmetric])
qed

text \<open>A whole number below \<open>2 ^ 24\<close> in absolute value is a float.\<close>

lemma float_round_of_int:
  assumes "\<bar>n\<bar> < 16777216"
  shows "float_round (real_of_int n) = real_of_int n"
proof (cases "n = 0")
  case True
  then show ?thesis by (simp add: float_round_def)
next
  case False
  define e where "e = \<lfloor>log 2 \<bar>real_of_int n\<bar>\<rfloor>"
  have n1: "1 \<le> \<bar>real_of_int n\<bar>" using False by (simp flip: of_int_abs)
  have n2: "\<bar>real_of_int n\<bar> < 16777216" using assms by (simp flip: of_int_abs)
  have "0 \<le> log 2 \<bar>real_of_int n\<bar>" using n1 by simp
  then have e0: "0 \<le> e" unfolding e_def by simp
  have "\<bar>real_of_int n\<bar> < 2 powr 24" using n2 by simp
  then have "log 2 \<bar>real_of_int n\<bar> < 24" using n1 by (simp add: log_less_iff)
  then have e23: "e \<le> 23" unfolding e_def by (simp add: floor_le_iff)
  define k where "k = nat (23 - e)"
  have ulp: "pow2 (e - 23) = 1 / 2 ^ k"
    using e23 by (cases "e = 23") (simp_all add: pow2_def k_def)
  have q: "real_of_int n / (1 / 2 ^ k) = real_of_int (n * 2 ^ k)"
    by simp
  have "float_round (real_of_int n) = real_of_int (round_even (real_of_int n / pow2 (e - 23))) * pow2 (e - 23)"
    using False by (simp add: float_round_def Let_def e_def[symmetric])
  also have "\<dots> = real_of_int (n * 2 ^ k) * (1 / 2 ^ k)"
    unfolding ulp q round_even_of_int ..
  also have "\<dots> = real_of_int n" by simp
  finally show ?thesis .
qed

lemma float_round_numeral:
  "numeral k < (16777216::int) \<Longrightarrow> float_round (numeral k) = numeral k"
  using float_round_of_int[of "numeral k"] by simp

lemma float_round_neg_numeral:
  "numeral k < (16777216::int) \<Longrightarrow> float_round (- numeral k) = - numeral k"
  using float_round_of_int[of "- numeral k"] by simp

lemma float_round_zero: "float_round 0 = 0"
  by (simp add: float_round_def)

lemma float_round_one: "float_round 1 = 1"
  using float_round_of_int[of 1] by simp

lemmas float_round_whole =
  float_round_zero float_round_one float_round_numeral float_round_neg_numeral

text \<open>
  A number nearer than 1/2 to a whole number is rounded to it; the floats around a
  positive number below \<open>2 ^ 24\<close> are the multiples of \<open>1 / 2 ^ n\<close>, for the \<open>n\<close> that
  brings the number between \<open>2 ^ 23\<close> and \<open>2 ^ 24\<close>.
\<close>

lemma round_even_near:
  assumes "\<bar>q - real_of_int m\<bar> < 1 / 2"
  shows "round_even q = m"
proof (cases "real_of_int m \<le> q")
  case True
  then have f: "\<lfloor>q\<rfloor> = m" using assms by (simp add: floor_eq_iff) 
  show ?thesis using assms True by (simp add: round_even_def Let_def f)
next
  case False
  then have f: "\<lfloor>q\<rfloor> = m - 1" using assms by (simp add: floor_eq_iff)
  show ?thesis using assms False by (simp add: round_even_def Let_def f)
qed

lemma float_round_grid:
  assumes "0 < r" "r < 16777216"
  obtains n :: nat where "float_round r = real_of_int (round_even (r * 2 ^ n)) / 2 ^ n"
    and "8388608 \<le> r * 2 ^ n" and "r * 2 ^ n < 16777216"
proof -
  define e where "e = \<lfloor>log 2 r\<rfloor>"
  have "r < 2 powr 24" using assms by simp
  then have "log 2 r < 24" using assms by (simp add: log_less_iff)
  then have e23: "e \<le> 23" unfolding e_def by (simp add: floor_le_iff)
  define n where "n = nat (23 - e)"
  have ulp: "pow2 (e - 23) = 1 / 2 ^ n"
    using e23 by (cases "e = 23") (simp_all add: pow2_def n_def)
  have "real_of_int e \<le> log 2 r" unfolding e_def by simp
  then have lo: "pow2 e \<le> r" using assms by (simp add: le_log_iff pow2_powr)
  have "log 2 r < real_of_int e + 1" unfolding e_def by linarith
  then have hi: "r < pow2 (e + 1)" using assms by (simp add: log_less_iff pow2_powr)
  have q: "pow2 e / pow2 (e - 23) = 2 ^ 23"
    by (simp add: pow2_powr powr_diff[symmetric])
  have q1: "pow2 (e + 1) / pow2 (e - 23) = 2 ^ 24"
    by (simp add: pow2_powr powr_diff[symmetric])
  have pe: "pow2 e = 8388608 / 2 ^ n" using q by (simp add: ulp field_simps)
  have pe1: "pow2 (e + 1) = 16777216 / 2 ^ n" using q1 by (simp add: ulp field_simps)
  have a: "float_round r = real_of_int (round_even (r * 2 ^ n)) / 2 ^ n"
    using assms by (simp add: float_round_def Let_def e_def[symmetric] ulp)
  have b: "8388608 \<le> r * 2 ^ n" using lo by (simp add: pe field_simps)
  have c: "r * 2 ^ n < 16777216" using hi unfolding pe1 by (simp add: field_simps)
  show ?thesis using that[OF a b c] .
qed

lemma two_power_ge16:
  assumes "(8::real) < 2 ^ n"
  shows "(16::real) \<le> 2 ^ n"
proof -
  have "\<not> n \<le> 3"
  proof
    assume "n \<le> 3"
    then have "(2::real) ^ n \<le> 2 ^ 3" by (intro power_increasing) simp_all
    then show False using assms by simp
  qed
  then have "4 \<le> n" by simp
  then have "(2::real) ^ 4 \<le> 2 ^ n" by (intro power_increasing) simp_all
  then show ?thesis by simp
qed

text \<open>
  A positive number below \<open>2 ^ 20\<close> is moved by at most 1/32, and it is rounded to a
  whole number from which it differs by less than one part in \<open>2 ^ 25\<close>.
\<close>

lemma float_round_small:
  assumes "0 < r" "r < 1048576"
  shows "\<bar>float_round r - r\<bar> \<le> 1 / 32"
    and "\<bar>r - real_of_int m\<bar> * 33554432 < r \<Longrightarrow> float_round r = real_of_int m"
proof -
  have r: "r < 16777216" using assms by simp
  obtain n :: nat where a: "float_round r = real_of_int (round_even (r * 2 ^ n)) / 2 ^ n"
    and b: "8388608 \<le> r * 2 ^ n" and c: "r * 2 ^ n < 16777216"
    using float_round_grid[OF assms(1) r] by blast
  have p: "(0::real) < 2 ^ n" by simp
  have "r * 2 ^ n < 1048576 * 2 ^ n" using assms p by simp
  then have "(8::real) < 2 ^ n" using b by linarith
  then have n16: "(16::real) \<le> 2 ^ n" by (rule two_power_ge16)
  have "float_round r - r = (real_of_int (round_even (r * 2 ^ n)) - r * 2 ^ n) / 2 ^ n"
    by (simp add: a field_simps)
  then have "\<bar>float_round r - r\<bar> = \<bar>real_of_int (round_even (r * 2 ^ n)) - r * 2 ^ n\<bar> / 2 ^ n"
    by (simp add: abs_divide)
  also have "\<dots> \<le> (1 / 2) / 2 ^ n"
    by (rule divide_right_mono[OF round_even_error]) simp
  also have "\<dots> \<le> (1 / 2) / 16"
    using n16 by (simp add: field_simps)
  finally show "\<bar>float_round r - r\<bar> \<le> 1 / 32" by simp
  show "float_round r = real_of_int m" if near: "\<bar>r - real_of_int m\<bar> * 33554432 < r"
  proof -
    define d where "d = \<bar>r - real_of_int m\<bar>"
    have "(d * 33554432) * 2 ^ n < r * 2 ^ n"
      using near p unfolding d_def by (rule mult_strict_right_mono)
    moreover have "(d * 33554432) * 2 ^ n = 33554432 * (d * 2 ^ n)" by simp
    ultimately have "33554432 * (d * 2 ^ n) < 16777216" using c by linarith
    then have "\<bar>r - real_of_int m\<bar> * 2 ^ n < 1 / 2" unfolding d_def by simp
    moreover have "\<bar>r * 2 ^ n - real_of_int (m * 2 ^ n)\<bar> = \<bar>r - real_of_int m\<bar> * 2 ^ n"
      by (simp add: left_diff_distrib[symmetric] abs_mult)
    ultimately have "round_even (r * 2 ^ n) = m * 2 ^ n"
      by (intro round_even_near) simp
    then show ?thesis by (simp add: a)
  qed
qed

text \<open>The floats nearest to 0.1 and to 1 - 0.1.\<close>

lemma float_round_tenth: "float_round (1 / 10) = 13421773 / 134217728"
  by (subst float_round_binade[where e = "- 4"]) (simp_all add: pow2_def round_even_def Let_def)

lemma float_round_one_minus_tenth: "float_round (1 - 13421773 / 134217728) = 7549747 / 8388608"
  by (subst float_round_binade[where e = "- 1"]) (simp_all add: pow2_def round_even_def Let_def)

section \<open>Properties of the lidar estimator\<close>

subsection \<open>Sums, mean and standard deviation of finite values\<close>

lemma is_fin_iff: "is_fin d \<longleftrightarrow> (\<exists>a. d = Fin a)"
  by (cases d) auto









subsection \<open>The closest point of a frame\<close>



lemma inlier_is_fin: "inlier pts p \<Longrightarrow> is_fin (lp_x p)"
  by (cases "lp_x p"; cases "fsub (lidarXMean pts) (fmul DistThreshold (lidarXStd pts))";
      cases "fadd (lidarXMean pts) (fmul DistThreshold (lidarXStd pts))")
     (auto simp: inlier_def fgreater_def)

lemma Min_insert_min:
  "finite S \<Longrightarrow> Min (insert (min m a) S) = Min (insert m (insert a (S::real set)))"
  by (cases "S = {}") (auto simp: min.assoc)

lemma foldl_minX_step:
  "foldl (minX_step P) (Fin m) pts =
   Fin (Min (insert m (set (map (\<lambda>p. fin_val (lp_x p)) (filter (inlier P) pts)))))"
proof (induction pts arbitrary: m)
  case Nil
  show ?case by simp
next
  case (Cons p pts)
  show ?case
  proof (cases "inlier P p")
    case False
    then show ?thesis using Cons.IH[of m] by (simp add: minX_step_def)
  next
    case True
    then obtain a where a: "lp_x p = Fin a"
      using inlier_is_fin is_fin_iff by blast
    let ?S = "set (map (\<lambda>p. fin_val (lp_x p)) (filter (inlier P) pts))"
    have step: "minX_step P (Fin m) p = Fin (min m a)"
      using True a by (auto simp: minX_step_def fgreater_def min_def)
    have "Min (insert (min m a) ?S) = Min (insert m (insert a ?S))"
      by (rule Min_insert_min) simp
    then show ?thesis using True a step Cons.IH[of "min m a"]
      by simp
  qed
qed

lemma minX_Min:
  "minX pts =
   Fin (Min (insert 1000000000 (set (map (\<lambda>p. fin_val (lp_x p)) (filter (inlier pts) pts)))))"
  by (simp add: minX_def minX_init_def foldl_minX_step)

lemma minX_is_Fin: "minX pts = Fin (fin_val (minX pts))"
  by (simp add: minX_Min)


lemmas lidar_eval =
  minX_def minX_step_def minX_init_def inlier_def lidarXStd_def lidarXMean_def lidarXSum_def
  lidarXSqSum_def lidarIStd_def lidarIMean_def lidarISum_def lidarISqSum_def vsize_def
  lidar_pt_def fsub_def fgreater_def DistThreshold_def intensityThreshold_def

subsection \<open>The constant velocity model\<close>












lemma computeTTCLidar_cv_unknown:
  "vehicleVel st = unknown \<Longrightarrow>
   computeTTCLidar ptsPrev ptsCurr fr st 0 =
     st\<lparr>TTC := ttc_cv (minX ptsPrev) (minX ptsCurr) (to_float (fdiv (Fin 1) fr))\<rparr>"
  by (simp add: computeTTCLidar_def update_acc_def Let_def fne_def unknown_def)

lemma lidar_run_cv:
  "vehicleVel st = unknown \<Longrightarrow>
   vehicleVel (lidar_run 0 fr calls st) = vehicleVel st \<and>
   vehicleAcc (lidar_run 0 fr calls st) = vehicleAcc st \<and>
   console (lidar_run 0 fr calls st) = console st"
proof (induction calls arbitrary: st)
  case Nil
  show ?case by (simp add: lidar_run_def)
next
  case (Cons c calls)
  obtain p q where c: "c = (p, q)" by (cases c)
  let ?s = "computeTTCLidar p q fr st 0"
  have s: "?s = st\<lparr>TTC := ttc_cv (minX p) (minX q) (to_float (fdiv (Fin 1) fr))\<rparr>"
    using Cons.prems by (rule computeTTCLidar_cv_unknown)
  have r: "lidar_run 0 fr (c # calls) st = lidar_run 0 fr calls ?s"
    by (simp add: lidar_run_def c)
  have "vehicleVel ?s = unknown" using Cons.prems s by simp
  from Cons.IH[OF this] show ?case unfolding r by (simp add: s)
qed

text \<open>
  Claim C10. Called with the constant velocity model and the velocity at its sentinel,
  the function changes nothing but \<open>TTC\<close> (dT being 1 / frameRate as a \<^verbatim>\<open>float\<close>); hence
  a run of the driver that uses only this model (\<open>lidar_run 0\<close>) leaves the velocity,
  the acceleration and the console as they were, whatever the calls.
\<close>

theorem constant_velocity_keeps_kinematic_state:
  "vehicleVel st = unknown \<Longrightarrow>
   computeTTCLidar ptsPrev ptsCurr frameRate st 0 =
     st\<lparr>TTC := fdiv (fmul (minX ptsCurr) (to_float (fdiv (Fin 1) frameRate)))
                    (fsub (minX ptsPrev) (minX ptsCurr))\<rparr> \<and>
   vehicleVel (lidar_run 0 frameRate calls st) = vehicleVel st \<and>
   vehicleAcc (lidar_run 0 frameRate calls st) = vehicleAcc st \<and>
   console (lidar_run 0 frameRate calls st) = console st"
  using computeTTCLidar_cv_unknown[of st ptsPrev ptsCurr frameRate]
    lidar_run_cv[of st frameRate calls]
  by (simp add: ttc_cv_def)

theorem constant_velocity_keeps_kinematic_state_witness:
  "vehicleVel driver_init = unknown \<and>
   computeTTCLidar [lidar_pt 10 1, lidar_pt 12 3] [lidar_pt 9 1, lidar_pt 11 3] (Fin 10)
     driver_init 0 = driver_init\<lparr>TTC := Fin (120795957 / 134217728)\<rparr> \<and>
   vehicleVel (lidar_run 0 (Fin 10)
     [([lidar_pt 10 1, lidar_pt 12 3], [lidar_pt 9 1, lidar_pt 11 3]),
      ([lidar_pt 9 1, lidar_pt 11 3], [lidar_pt 9 1, lidar_pt 11 3])] driver_init) = unknown \<and>
   vehicleAcc (lidar_run 0 (Fin 10)
     [([lidar_pt 10 1, lidar_pt 12 3], [lidar_pt 9 1, lidar_pt 11 3]),
      ([lidar_pt 9 1, lidar_pt 11 3], [lidar_pt 9 1, lidar_pt 11 3])] driver_init) = unknown"
proof -
  have v: "vehicleVel driver_init = unknown" by (simp add: driver_init_def)
  have a: "minX [lidar_pt 10 1, lidar_pt 12 3] = Fin 10" by (simp add: lidar_eval)
  have b: "minX [lidar_pt 9 1, lidar_pt 11 3] = Fin 9" by (simp add: lidar_eval)
  show ?thesis
    using constant_velocity_keeps_kinematic_state[OF v,
       of "[lidar_pt 10 1, lidar_pt 12 3]" "[lidar_pt 9 1, lidar_pt 11 3]" "Fin 10"
       "[([lidar_pt 10 1, lidar_pt 12 3], [lidar_pt 9 1, lidar_pt 11 3]),
         ([lidar_pt 9 1, lidar_pt 11 3], [lidar_pt 9 1, lidar_pt 11 3])]"]
    by (simp add: a b fsub_def driver_init_def float_round_tenth)
qed

text \<open>
  Claim C3, as stated: with minXPrev equal to minXCurr the function yields the
  "unavailable" marker and no infinite value. It does not: both frames below have the
  closest point at 10 m, and the quotient 10 * dT / 0 is +infinity.
\<close>

theorem zero_motion_counterexample:
  "minX [lidar_pt 10 1, lidar_pt 12 3] = Fin 10 \<and>
   TTC (computeTTCLidar [lidar_pt 10 1, lidar_pt 12 3] [lidar_pt 10 1, lidar_pt 12 3]
          (Fin 10) driver_init 0) = PInf"
proof -
  have a: "minX [lidar_pt 10 1, lidar_pt 12 3] = Fin 10" by (simp add: lidar_eval)
  show ?thesis by (simp add: a computeTTCLidar_def Let_def ttc_cv_def fsub_def float_round_tenth)
qed

text \<open>
  Claim C3, amended. For a positive frame rate the constant velocity model never fails
  and guards no division: with minXPrev equal to minXCurr the result is +infinity,
  NaN or -infinity as minXCurr is positive, zero or negative, and otherwise it is the
  finite quotient minXCurr * dT / (minXPrev - minXCurr), whatever its sign; dT is
  1 / frameRate rounded to single precision.
\<close>

theorem zero_motion_divides_by_zero:
  "0 < f \<Longrightarrow>
   TTC (computeTTCLidar ptsPrev ptsCurr (Fin f) st 0) =
     (if fin_val (minX ptsPrev) = fin_val (minX ptsCurr)
      then (if 0 < fin_val (minX ptsCurr) then PInf
            else if fin_val (minX ptsCurr) = 0 then NaN else NInf)
      else Fin (fin_val (minX ptsCurr) * float_round (1 / f) /
                (fin_val (minX ptsPrev) - fin_val (minX ptsCurr))))"
proof -
  assume f: "0 < f"
  obtain a where a: "minX ptsPrev = Fin a" using minX_is_Fin by blast
  obtain b where b: "minX ptsCurr = Fin b" using minX_is_Fin by blast
  have d: "0 < float_round (1 / f)" using f by (simp add: float_round_pos)
  show ?thesis using f d
    by (simp add: computeTTCLidar_def Let_def ttc_cv_def fsub_def a b zero_less_mult_iff
        mult_less_0_iff)
qed

theorem zero_motion_divides_by_zero_witness:
  "(0::real) < 10 \<and>
   TTC (computeTTCLidar [lidar_pt 10 1, lidar_pt 12 3] [lidar_pt 10 1, lidar_pt 12 3]
          (Fin 10) driver_init 0) = PInf \<and>
   TTC (computeTTCLidar [lidar_pt 9 1, lidar_pt 11 3] [lidar_pt 10 1, lidar_pt 12 3]
          (Fin 10) driver_init 0) = Fin (- (67108865 / 67108864))"
proof -
  have f: "(0::real) < 10" by simp
  have a: "minX [lidar_pt 10 1, lidar_pt 12 3] = Fin 10" by (simp add: lidar_eval)
  have b: "minX [lidar_pt 9 1, lidar_pt 11 3] = Fin 9" by (simp add: lidar_eval)
  show ?thesis
    using zero_motion_divides_by_zero[OF f, of "[lidar_pt 10 1, lidar_pt 12 3]"
            "[lidar_pt 10 1, lidar_pt 12 3]" driver_init]
          zero_motion_divides_by_zero[OF f, of "[lidar_pt 9 1, lidar_pt 11 3]"
            "[lidar_pt 10 1, lidar_pt 12 3]" driver_init]
    by (simp add: a b float_round_tenth)
qed

subsection \<open>The constant acceleration model\<close>


lemma sqrt_49: "sqrt 49 = 7"
  by (rule real_sqrt_unique) simp_all









text \<open>
  Claim C7, as stated: on every frame where the acceleration is not yet known the TTC
  is the constant velocity fallback. It is not on the frame that finds the velocity
  known: the acceleration is estimated before the TTC, and the quadratic is used at
  once. Below, v = 1, minXPrev = 15, minXCurr = 12 and dT = 1 give the acceleration 2
  and the TTC 3, where the fallback is 12 / 3 = 4.
\<close>

theorem fallback_counterexample:
  "kstate (driver_init\<lparr>vehicleVel := Fin 1\<rparr>) = VelocityKnown \<and>
   TTC (computeTTCLidar [lidar_pt 15 1, lidar_pt 17 3] [lidar_pt 12 1, lidar_pt 14 3] (Fin 1)
          (driver_init\<lparr>vehicleVel := Fin 1\<rparr>) 1) = Fin 3 \<and>
   fdiv (fmul (minX [lidar_pt 12 1, lidar_pt 14 3]) (to_float (fdiv (Fin 1) (Fin 1))))
        (fsub (minX [lidar_pt 15 1, lidar_pt 17 3]) (minX [lidar_pt 12 1, lidar_pt 14 3])) = Fin 4"
proof -
  have a: "minX [lidar_pt 12 1, lidar_pt 14 3] = Fin 12" by (simp add: lidar_eval)
  have b: "minX [lidar_pt 15 1, lidar_pt 17 3] = Fin 15" by (simp add: lidar_eval)
  show ?thesis
    by (simp add: a b computeTTCLidar_def Let_def update_acc_def update_vel_def
        ttc_quadratic_def driver_init_def unknown_def fne_def fsub_def fgreater_def
        std_min_def sqrt_49 kstate_def float_round_one)
qed

lemma ttc_quadratic_kin:
  "vehicleVel (ttc_quadratic m st) = vehicleVel st \<and>
   vehicleAcc (ttc_quadratic m st) = vehicleAcc st"
  by (simp add: ttc_quadratic_def Let_def)

lemma kstate_cases:
  "kstate st = Uninitialized \<longleftrightarrow> feq (vehicleAcc st) unknown \<and> feq (vehicleVel st) unknown"
  "kstate st = VelocityKnown \<longleftrightarrow> feq (vehicleAcc st) unknown \<and> \<not> feq (vehicleVel st) unknown"
  "kstate st = VelocityAndAccelerationKnown \<longleftrightarrow> \<not> feq (vehicleAcc st) unknown"
  by (auto simp: kstate_def)

text \<open>
  Claim C7, amended. Under the constant acceleration model: entered Uninitialized,
  the frame computes the TTC by the constant velocity formula and sets the velocity
  to (minXPrev - minXCurr) / dT (dT being 1 / frameRate as a \<^verbatim>\<open>float\<close>), leaving the
  acceleration unknown; entered
  VelocityKnown, it sets the acceleration to (thisFrameVelocity - previousVelocity)
  / dT before the TTC, so that the TTC of this frame comes from the quadratic (the
  fallback is used only if the estimate equals the sentinel), and the state becomes
  VelocityAndAccelerationKnown; entered with the acceleration known, the acceleration
  is not estimated again. The state does not regress, provided the acceleration
  estimated from VelocityKnown is not the sentinel -1e9.
\<close>

theorem kinematic_state_progression:
  assumes "TTCcalModel \<noteq> 0"
  shows
   "(let dT = to_float (fdiv (Fin 1) frameRate);
         minXPrev = minX ptsPrev;
         minXCurr = minX ptsCurr;
         fallback = fdiv (fmul minXCurr dT) (fsub minXPrev minXCurr);
         thisFrameVelocity = fdiv (fsub minXPrev minXCurr) dT;
         st' = computeTTCLidar ptsPrev ptsCurr frameRate st TTCcalModel
     in (kstate st = Uninitialized \<longrightarrow>
           TTC st' = fallback \<and> vehicleVel st' = thisFrameVelocity \<and>
           vehicleAcc st' = vehicleAcc st) \<and>
        (kstate st = VelocityKnown \<longrightarrow>
           vehicleAcc st' = fdiv (fsub thisFrameVelocity (vehicleVel st)) dT \<and>
           vehicleVel st' = fadd (vehicleVel st) (fmul (vehicleAcc st') dT) \<and>
           (feq (vehicleAcc st') unknown \<longrightarrow> TTC st' = fallback) \<and>
           (fne (vehicleAcc st') unknown \<longrightarrow>
              TTC st' = TTC (ttc_quadratic minXCurr (st\<lparr>vehicleAcc := vehicleAcc st'\<rparr>)) \<and>
              kstate st' = VelocityAndAccelerationKnown)) \<and>
        (kstate st = VelocityAndAccelerationKnown \<longrightarrow>
           vehicleAcc st' = vehicleAcc st \<and> kstate st' = VelocityAndAccelerationKnown) \<and>
        (fne (vehicleAcc st') unknown \<or> kstate st \<noteq> VelocityKnown \<longrightarrow>
           krank (kstate st) \<le> krank (kstate st')))"
proof -
  define dT where "dT = to_float (fdiv (Fin 1) frameRate)"
  define p where "p = minX ptsPrev"
  define q where "q = minX ptsCurr"
  define st' where "st' = computeTTCLidar ptsPrev ptsCurr frameRate st TTCcalModel"
  have st': "st' = update_vel p q dT
      (if feq (vehicleAcc (update_acc p q dT st)) unknown
       then (update_acc p q dT st)\<lparr>TTC := ttc_cv p q dT\<rparr>
       else ttc_quadratic q (update_acc p q dT st))"
    using assms by (simp add: st'_def computeTTCLidar_def Let_def dT_def p_def q_def)
  have TQ: "TTC (ttc_quadratic q (s\<lparr>console := c\<rparr>)) = TTC (ttc_quadratic q s)" for s c
    by (simp add: ttc_quadratic_def Let_def)
  have U: "kstate st = Uninitialized \<longrightarrow>
           TTC st' = fdiv (fmul q dT) (fsub p q) \<and> vehicleVel st' = fdiv (fsub p q) dT \<and>
           vehicleAcc st' = vehicleAcc st"
    by (simp add: kstate_cases st' update_acc_def update_vel_def fne_def ttc_cv_def)
  have V: "kstate st = VelocityKnown \<longrightarrow>
           vehicleAcc st' = fdiv (fsub (fdiv (fsub p q) dT) (vehicleVel st)) dT \<and>
           vehicleVel st' = fadd (vehicleVel st) (fmul (vehicleAcc st') dT) \<and>
           (feq (vehicleAcc st') unknown \<longrightarrow> TTC st' = fdiv (fmul q dT) (fsub p q)) \<and>
           (fne (vehicleAcc st') unknown \<longrightarrow>
              TTC st' = TTC (ttc_quadratic q (st\<lparr>vehicleAcc := vehicleAcc st'\<rparr>)) \<and>
              kstate st' = VelocityAndAccelerationKnown)"
    by (simp add: kstate_cases st' update_acc_def update_vel_def fne_def ttc_cv_def Let_def
        ttc_quadratic_kin TQ)
  have A: "kstate st = VelocityAndAccelerationKnown \<longrightarrow>
           vehicleAcc st' = vehicleAcc st \<and> kstate st' = VelocityAndAccelerationKnown"
    by (simp add: kstate_cases st' update_acc_def update_vel_def fne_def ttc_quadratic_kin)
  have R: "fne (vehicleAcc st') unknown \<or> kstate st \<noteq> VelocityKnown \<longrightarrow>
           krank (kstate st) \<le> krank (kstate st')"
  proof (cases "kstate st")
    case Uninitialized
    then show ?thesis by simp
  next
    case VelocityKnown
    then show ?thesis using V by simp
  next
    case VelocityAndAccelerationKnown
    then show ?thesis using A by simp
  qed
  show ?thesis
    unfolding Let_def dT_def[symmetric] p_def[symmetric] q_def[symmetric] st'_def[symmetric]
    using U V A R by blast
qed

theorem kinematic_state_progression_witness:
  "kstate driver_init = Uninitialized \<and>
   TTC (computeTTCLidar [lidar_pt 15 1, lidar_pt 17 3] [lidar_pt 12 1, lidar_pt 14 3]
          (Fin 1) driver_init 1) = Fin 4 \<and>
   vehicleVel (computeTTCLidar [lidar_pt 15 1, lidar_pt 17 3] [lidar_pt 12 1, lidar_pt 14 3]
                 (Fin 1) driver_init 1) = Fin 3 \<and>
   vehicleAcc (computeTTCLidar [lidar_pt 15 1, lidar_pt 17 3] [lidar_pt 12 1, lidar_pt 14 3]
                 (Fin 1) driver_init 1) = unknown \<and>
   kstate (driver_init\<lparr>vehicleVel := Fin 1\<rparr>) = VelocityKnown \<and>
   vehicleAcc (computeTTCLidar [lidar_pt 15 1, lidar_pt 17 3] [lidar_pt 12 1, lidar_pt 14 3]
                 (Fin 1) (driver_init\<lparr>vehicleVel := Fin 1\<rparr>) 1) = Fin 2 \<and>
   kstate (computeTTCLidar [lidar_pt 15 1, lidar_pt 17 3] [lidar_pt 12 1, lidar_pt 14 3]
             (Fin 1) (driver_init\<lparr>vehicleVel := Fin 1\<rparr>) 1) = VelocityAndAccelerationKnown"
proof -
  let ?P = "[lidar_pt 15 1, lidar_pt 17 3]" and ?C = "[lidar_pt 12 1, lidar_pt 14 3]"
  let ?s = "driver_init\<lparr>vehicleVel := Fin 1\<rparr>"
  have h: "(1::int) \<noteq> 0" by simp
  have a: "minX ?C = Fin 12" by (simp add: lidar_eval)
  have b: "minX ?P = Fin 15" by (simp add: lidar_eval)
  have k: "kstate driver_init = Uninitialized"
    by (simp add: kstate_def driver_init_def unknown_def)
  have k1: "kstate ?s = VelocityKnown"
    by (simp add: kstate_def driver_init_def unknown_def)
  have u: "TTC (computeTTCLidar ?P ?C (Fin 1) driver_init 1) = Fin 4 \<and>
           vehicleVel (computeTTCLidar ?P ?C (Fin 1) driver_init 1) = Fin 3 \<and>
           vehicleAcc (computeTTCLidar ?P ?C (Fin 1) driver_init 1) = unknown"
    using kinematic_state_progression[OF h, of "Fin 1" ?P ?C driver_init] k
    unfolding Let_def a b by (simp add: fsub_def driver_init_def float_round_one)
  have v: "vehicleAcc (computeTTCLidar ?P ?C (Fin 1) ?s 1) = Fin 2"
    using kinematic_state_progression[OF h, of "Fin 1" ?P ?C ?s] k1
    unfolding Let_def a b by (simp add: fsub_def driver_init_def float_round_one)
  have "fne (vehicleAcc (computeTTCLidar ?P ?C (Fin 1) ?s 1)) unknown"
    unfolding v by (simp add: fne_def unknown_def)
  then have w: "kstate (computeTTCLidar ?P ?C (Fin 1) ?s 1) = VelocityAndAccelerationKnown"
    using kinematic_state_progression[OF h, of "Fin 1" ?P ?C ?s] k1
    unfolding Let_def by blast
  show ?thesis using k k1 u v w by blast
qed

section \<open>Properties of the two clustering functions and of the matcher\<close>

subsection \<open>clusterLidarWithROI\<close>

lemma filter_upt_single:
  "filter P [0 ..< n] = [i] \<longleftrightarrow> i < n \<and> P i \<and> (\<forall>j < n. P j \<longrightarrow> j = i)"
proof (induction n)
  case 0
  show ?case by simp
next
  case (Suc n)
  show ?case
  proof (cases "P n")
    case False
    then show ?thesis using Suc by (auto simp: less_Suc_eq)
  next
    case True
    have "filter P [0 ..< Suc n] = [i] \<longleftrightarrow> filter P [0 ..< n] = [] \<and> i = n"
      using True by (auto simp: append_eq_Cons_conv)
    also have "\<dots> \<longleftrightarrow> (\<forall>j < n. \<not> P j) \<and> i = n"
      by (auto simp: filter_empty_conv)
    also have "\<dots> \<longleftrightarrow> i < Suc n \<and> P i \<and> (\<forall>j < Suc n. P j \<longrightarrow> j = i)"
      using True by (auto simp: less_Suc_eq)
    finally show ?thesis .
  qed
qed

text \<open>The code's rectangle and test are the explicit ones.\<close>

lemma to_int_trunc: "to_int v = (if v < 0 then - \<lfloor>- v\<rfloor> else \<lfloor>v\<rfloor>)"
  by (simp add: to_int_def ceiling_def not_le)

lemma smallerBox_shrunk: "smallerBox s r = shrunk s r"
  by (simp add: smallerBox_def shrunk_def shrunk_lo_def shrunk_len_def Let_def to_int_trunc)

lemma cv_contains_in_rect: "cv_contains r p \<longleftrightarrow> in_rect r p"
  by (auto simp: cv_contains_def in_rect_def)

lemma enclosingBoxes_sole:
  "enclosingBoxes s boxes px = [i] \<longleftrightarrow> sole_box s boxes px i"
  by (simp add: enclosingBoxes_def sole_box_def filter_upt_single smallerBox_shrunk
      cv_contains_in_rect)

lemma enclosingBoxes_roi:
  "map roi boxes' = map roi boxes \<Longrightarrow>
   enclosingBoxes s boxes' px = enclosingBoxes s boxes px"
proof -
  assume m: "map roi boxes' = map roi boxes"
  then have l: "length boxes' = length boxes" by (rule map_eq_imp_length_eq)
  have "\<And>i. i < length boxes \<Longrightarrow> roi (boxes' ! i) = roi (boxes ! i)"
    using m l by (metis nth_map)
  then show ?thesis
    unfolding enclosingBoxes_def l by (auto intro: filter_cong)
qed

lemma cluster_point_single:
  "enclosingBoxes s boxes (project p) = [k] \<Longrightarrow>
   cluster_point project s boxes p = boxes[k := push_lidarPoint p (boxes ! k)]"
  by (simp add: cluster_point_def)

lemma cluster_point_other:
  "\<not> (\<exists>k. enclosingBoxes s boxes (project p) = [k]) \<Longrightarrow>
   cluster_point project s boxes p = boxes"
  by (auto simp: cluster_point_def split: list.splits)

lemma cluster_point_roi:
  "map roi (cluster_point project s boxes p) = map roi boxes"
proof (cases "\<exists>k. enclosingBoxes s boxes (project p) = [k]")
  case False
  then show ?thesis by (simp add: cluster_point_other)
next
  case True
  then obtain k where k: "enclosingBoxes s boxes (project p) = [k]" by blast
  have "map roi (boxes[k := push_lidarPoint p (boxes ! k)]) =
        (map roi boxes)[k := roi (boxes ! k)]"
    by (simp add: map_update push_lidarPoint_def)
  also have "\<dots> = map roi boxes"
    by (cases "k < length boxes") (simp_all add: list_update_same_conv list_update_beyond)
  finally show ?thesis
    using cluster_point_single[of s boxes project p k] k by simp
qed

lemma cluster_point_length:
  "length (cluster_point project s boxes p) = length boxes"
  using cluster_point_roi[of project s boxes p] by (metis length_map)

lemma cluster_point_nth:
  assumes "i < length boxes"
  shows "lidarPoints (cluster_point project s boxes p ! i) =
     lidarPoints (boxes ! i) @ (if sole_box s boxes (project p) i then [p] else [])"
proof (cases "\<exists>k. enclosingBoxes s boxes (project p) = [k]")
  case False
  then show ?thesis by (auto simp: cluster_point_other enclosingBoxes_sole)
next
  case True
  then obtain k where k: "enclosingBoxes s boxes (project p) = [k]" by blast
  then have sk: "sole_box s boxes (project p) k" by (simp add: enclosingBoxes_sole)
  have eq: "sole_box s boxes (project p) i \<longleftrightarrow> i = k"
    using sk assms by (auto simp: sole_box_def)
  show ?thesis
    using assms eq cluster_point_single[of s boxes project p k] k
    by (auto simp: push_lidarPoint_def nth_list_update)
qed

lemma sole_box_roi:
  "map roi boxes' = map roi boxes \<Longrightarrow>
   sole_box s boxes' px i = sole_box s boxes px i"
  using enclosingBoxes_roi[of boxes' boxes s px]
  by (simp flip: enclosingBoxes_sole)

lemma clusterLidar_fold:
  "i < length boxes \<Longrightarrow>
   map roi (foldl (cluster_point project s) boxes pts) = map roi boxes \<and>
   lidarPoints (foldl (cluster_point project s) boxes pts ! i) =
     lidarPoints (boxes ! i) @ filter (\<lambda>p. sole_box s boxes (project p) i) pts"
proof (induction pts arbitrary: boxes)
  case Nil
  show ?case by simp
next
  case (Cons p pts)
  let ?b = "cluster_point project s boxes p"
  have r: "map roi ?b = map roi boxes" by (rule cluster_point_roi)
  have l: "i < length ?b" using Cons.prems by (simp add: cluster_point_length)
  have sb: "\<And>q. sole_box s ?b (project q) i = sole_box s boxes (project q) i"
    by (rule sole_box_roi[OF r])
  show ?case
    using Cons.IH[OF l] r cluster_point_nth[OF Cons.prems, of project s p]
    by (simp add: sb)
qed

text \<open>
  The shrink factor 0.1 of the driver, as a float, and a side \<open>w\<close> below \<open>2 ^ 20\<close>: the
  rounding to single precision has no effect on the whole numbers that result. The
  width is \<open>9 w / 10\<close> cut to a whole number, and the left edge is \<open>x + w / 20\<close> cut to
  a whole number towards zero.
\<close>

lemma float_round_shrink10: "float_round (1 - shrink10) = 7549747 / 8388608"
  using float_round_one_minus_tenth by (simp add: shrink10_def)

lemma shrunk_len_tenth:
  assumes "0 \<le> w" "w < 1048576"
  shows "shrunk_len shrink10 w = 9 * w div 10"
proof (cases "w = 0")
  case True
  then show ?thesis by (simp add: shrunk_len_def float_round_whole)
next
  case False
  then have wpos: "0 < w" using assms by simp
  have fw: "float_round (real_of_int w) = real_of_int w"
    using assms by (intro float_round_of_int) simp
  define r where "r = real_of_int w * (7549747 / 8388608)"
  define k where "k = 9 * w div 10"
  define j where "j = 9 * w mod 10"
  have kj: "9 * w = 10 * k + j" and j0: "0 \<le> j" and j10: "j < 10"
    by (simp_all add: k_def j_def)
  have "real_of_int (9 * w) = real_of_int (10 * k + j)" using kj by simp
  then have w9: "9 * real_of_int w = 10 * real_of_int k + real_of_int j" by simp
  have rk: "r = (real_of_int k + real_of_int j / 10) * (75497470 / 75497472)"
    using w9 by (simp add: r_def field_simps)
  have rpos: "0 < r" using wpos by (simp add: r_def)
  have rlt: "r < 1048576" using assms by (simp add: r_def)
  have k20: "real_of_int k < 1048576" using w9 assms j0 by simp
  have v: "shrunk_len shrink10 w = (if float_round r < 0 then - \<lfloor>- float_round r\<rfloor> else \<lfloor>float_round r\<rfloor>)"
    by (simp add: shrunk_len_def Let_def fw float_round_shrink10 r_def)
  have "\<lfloor>float_round r\<rfloor> = k \<and> 0 \<le> float_round r"
  proof (cases "j = 0")
    case True
    then have r9: "r = real_of_int k * (75497470 / 75497472)" by (simp add: rk)
    have kpos: "0 < real_of_int k" using rpos r9 by (simp add: zero_less_mult_iff)
    have "\<bar>r - real_of_int k\<bar> = real_of_int k * (2 / 75497472)" using kpos by (simp add: r9)
    then have "\<bar>r - real_of_int k\<bar> * 33554432 < r" using kpos by (simp add: r9)
    then have "float_round r = real_of_int k" by (rule float_round_small(2)[OF rpos rlt])
    then show ?thesis using kpos by simp
  next
    case False
    then have j1: "1 \<le> real_of_int j" and j9: "real_of_int j \<le> 9" using j0 j10 by simp_all
    have k0: "0 \<le> real_of_int k" using assms by (simp add: k_def)
    have lo: "real_of_int k + 7 / 100 \<le> r" using j1 k0 k20 by (simp add: rk)
    have hi: "r \<le> real_of_int k + 9 / 10" using j9 k0 by (simp add: rk)
    have e: "\<bar>float_round r - r\<bar> \<le> 1 / 32" by (rule float_round_small(1)[OF rpos rlt])
    have a: "real_of_int k \<le> float_round r" using lo e by linarith
    have b: "float_round r < real_of_int k + 1" using hi e by linarith
    have "\<lfloor>float_round r\<rfloor> = k" using a b by (simp add: floor_eq_iff)
    then show ?thesis using a k0 by simp
  qed
  then show ?thesis unfolding v k_def[symmetric] by simp
qed

lemma shrunk_lo_tenth:
  assumes "0 \<le> w" "w < 1048576"
  shows "shrunk_lo shrink10 x w =
     (if 0 \<le> 20 * x + w then (20 * x + w) div 20 else - ((- (20 * x + w)) div 20))"
proof (cases "w = 0")
  case True
  have "- (20 * x) = 20 * (- x)" by simp
  then have d: "(- (20 * x)) div 20 = - x" by (simp del: mult_minus_right)
  show ?thesis using True by (simp add: shrunk_lo_def float_round_whole d)
next
  case False
  then have wpos: "0 < w" using assms by simp
  have fw: "float_round (real_of_int w) = real_of_int w"
    using assms by (intro float_round_of_int) simp
  define y where "y = shrink10 * real_of_int w"
  define a where "a = w div 20"
  define b where "b = w mod 20"
  have ab: "w = 20 * a + b" and b0: "0 \<le> b" and b20: "b < 20"
    by (simp_all add: a_def b_def)
  have a0: "0 \<le> a" using assms by (simp add: a_def)
  have "real_of_int w = real_of_int (20 * a + b)" using ab by simp
  then have w20: "real_of_int w = 20 * real_of_int a + real_of_int b" by simp
  have yk: "y = (2 * real_of_int a + real_of_int b / 10) * (134217730 / 134217728)"
    by (simp add: y_def shrink10_def w20 field_simps)
  have ypos: "0 < y" using wpos by (simp add: y_def shrink10_def)
  have ylt: "y < 1048576" using assms by (simp add: y_def shrink10_def)
  have a20: "real_of_int a < 1048576" using w20 assms b0 by simp
  define f where "f = float_round y / 2 - real_of_int a"
  have v: "shrunk_lo shrink10 x w =
     (if real_of_int (x + a) + f < 0 then - \<lfloor>- (real_of_int (x + a) + f)\<rfloor>
      else \<lfloor>real_of_int (x + a) + f\<rfloor>)"
    by (simp add: shrunk_lo_def Let_def fw y_def f_def algebra_simps)
  show ?thesis
  proof (cases "b = 0")
    case True
    then have y2: "y = 2 * real_of_int a * (134217730 / 134217728)" by (simp add: yk)
    have apos: "0 < real_of_int a" using ypos y2 by (simp add: zero_less_mult_iff)
    have "\<bar>y - real_of_int (2 * a)\<bar> = real_of_int a * (4 / 134217728)" using apos by (simp add: y2)
    then have "\<bar>y - real_of_int (2 * a)\<bar> * 33554432 < y" using apos by (simp add: y2)
    then have "float_round y = real_of_int (2 * a)" by (rule float_round_small(2)[OF ypos ylt])
    then have f0: "f = 0" by (simp add: f_def)
    have r: "20 * x + w = 20 * (x + a)" using ab True by simp
    have d1: "(20 * (x + a)) div 20 = x + a" by simp
    have "- (20 * (x + a)) = 20 * (- (x + a))" by simp
    then have d2: "(- (20 * (x + a))) div 20 = - (x + a)" by (simp only: nonzero_mult_div_cancel_left)
    show ?thesis unfolding v f0 r d1 d2 by simp
  next
    case False
    then have b1: "1 \<le> real_of_int b" and b19: "real_of_int b \<le> 19" using b0 b20 by simp_all
    have ra0: "0 \<le> real_of_int a" using a0 by simp
    have lo: "2 * real_of_int a + 1 / 10 \<le> y" using b1 ra0 by (simp add: yk)
    have hi: "y \<le> 2 * real_of_int a + 19 / 10 + 1 / 32" using b19 ra0 a20 by (simp add: yk)
    have e: "\<bar>float_round y - y\<bar> \<le> 1 / 32" by (rule float_round_small(1)[OF ypos ylt])
    have f1: "0 < f" unfolding f_def using lo e by linarith
    have f2: "f < 1" unfolding f_def using hi e by linarith
    have b1': "1 \<le> b" and b19': "b \<le> 19" using False b0 b20 by simp_all
    show ?thesis
    proof (cases "0 \<le> x + a")
      case True
      then have "0 \<le> real_of_int (x + a)" by simp
      then have nn: "\<not> real_of_int (x + a) + f < 0" using f1 by linarith
      have fl: "\<lfloor>real_of_int (x + a) + f\<rfloor> = x + a" using f1 f2 by (simp add: floor_eq_iff)
      have "0 \<le> 20 * x + w" using True ab b0 by linarith
      moreover have "(20 * x + w) div 20 = x + a" using ab b0 b20 by simp
      ultimately show ?thesis unfolding v using nn fl by simp
    next
      case False
      then have "x + a \<le> - 1" by simp
      then have "real_of_int (x + a) \<le> - 1" by linarith
      then have ng: "real_of_int (x + a) + f < 0" using f2 by linarith
      have fl: "\<lfloor>- (real_of_int (x + a) + f)\<rfloor> = - (x + a) - 1" using f1 f2 by (simp add: floor_eq_iff)
      have n2: "\<not> 0 \<le> 20 * x + w" using False ab b20 by linarith
      have "- (20 * x + w) = 20 * (- (x + a) - 1) + (20 - b)" using ab by simp
      then have "(- (20 * x + w)) div 20 = - (x + a) - 1" using b1' b19' by simp
      then show ?thesis unfolding v using ng fl n2 by simp
    qed
  qed
qed

lemma shrunk_tenth:
  assumes "0 \<le> rect_width r" "rect_width r < 1048576"
    and "0 \<le> rect_height r" "rect_height r < 1048576"
  shows "shrunk shrink10 r =
     \<lparr>rect_x = cut20 (20 * rect_x r + rect_width r),
      rect_y = cut20 (20 * rect_y r + rect_height r),
      rect_width = 9 * rect_width r div 10,
      rect_height = 9 * rect_height r div 10\<rparr>"
  using assms by (simp add: shrunk_def shrunk_lo_tenth shrunk_len_tenth cut20_def)

lemma shrunk_box_15: "shrunk shrink10 (roi (mk_box i 0 0 15 15)) =
   \<lparr>rect_x = 0, rect_y = 0, rect_width = 13, rect_height = 13\<rparr>"
  by (subst shrunk_tenth) (simp_all add: mk_box_def cut20_def)

lemma flat_project_pxy: "flat_project (pxy a b) = \<lparr>pix_x = to_int a, pix_y = to_int b\<rparr>"
  by (simp add: flat_project_def pxy_def)

text \<open>
  Claim C8, as stated: a point is appended iff its pixel lies strictly inside exactly
  one rectangle with each side inset by shrinkFactor / 2 of that dimension. It is
  not so. The four fields of the shrunk rectangle are integers, and the left and the
  top edge belong to it: the box at (0, 0) of 15 by 15 pixels, with the shrink factor
  0.1 of the driver, is shrunk to the columns and rows 0 to 12, where the inset of
  0.75 gives 0.75 to 14.25. The point with the pixel (0, 0) is appended to the box
  though the pixel is not inside the inset rectangle, not even on its edge, and the
  point with the pixel (13, 5) is not appended though the pixel lies strictly inside
  the inset rectangle of the only box.
\<close>

theorem inset_rectangle_counterexample:
  "flat_project (pxy 0 0) = \<lparr>pix_x = 0, pix_y = 0\<rparr> \<and>
   flat_project (pxy 13 5) = \<lparr>pix_x = 13, pix_y = 5\<rparr> \<and>
   lidarPoints (clusterLidarWithROI flat_project [mk_box 0 0 0 15 15] [pxy 0 0, pxy 13 5]
                  shrink10 ! 0) = [pxy 0 0] \<and>
   \<not> inset_closed shrink10 (roi (mk_box 0 0 0 15 15)) 0 0 \<and>
   inset_open shrink10 (roi (mk_box 0 0 0 15 15)) 13 5"
proof -
  have a: "flat_project (pxy 0 0) = \<lparr>pix_x = 0, pix_y = 0\<rparr>"
    "flat_project (pxy 13 5) = \<lparr>pix_x = 13, pix_y = 5\<rparr>"
    by (simp_all add: flat_project_pxy to_int_def)
  have b: "lidarPoints (clusterLidarWithROI flat_project [mk_box 0 0 0 15 15]
             [pxy 0 0, pxy 13 5] shrink10 ! 0) = [pxy 0 0]"
    by (simp add: clusterLidarWithROI_def cluster_point_def enclosingBoxes_def a
        smallerBox_shrunk shrunk_box_15 cv_contains_def push_lidarPoint_def)
       (simp add: mk_box_def)
  have c: "\<not> inset_closed shrink10 (roi (mk_box 0 0 0 15 15)) 0 0"
    by (simp add: inset_closed_def mk_box_def shrink10_def)
  have d: "inset_open shrink10 (roi (mk_box 0 0 0 15 15)) 13 5"
    by (simp add: inset_open_def mk_box_def shrink10_def)
  show ?thesis using a b c d by simp
qed

text \<open>
  Claim C8, amended. For every box \<open>i\<close> of the frame, the function appends to the box's
  lidar points exactly the points whose pixel lies in the shrunk rectangle of box \<open>i\<close>
  and of no other box, in their order; a pixel in no shrunk rectangle or in more
  than one adds the point to no box, and no point is added to two boxes. The
  rectangles are not changed. The shrunk rectangle of a rectangle at (x, y) of
  width w and height h has the left edge x + shrinkFactor w / 2 and the top edge
  y + shrinkFactor h / 2, the width w (1 - shrinkFactor) and the height
  h (1 - shrinkFactor), each cut to a whole number towards zero (the products and
  1 - shrinkFactor being rounded to single precision first), and a pixel lies in it
  if its column is one of the width many columns from the left edge on and its row
  one of the height many rows from the top edge on: the left and the top edge
  belong to the rectangle, the right and the bottom edge do not. For the shrink
  factor of the driver, the float nearest to 0.1, and sides below \<open>2 ^ 20\<close> pixels the
  shrunk rectangle has the left edge x + w / 20 and the top edge y + h / 20, cut to
  a whole number towards zero, the width 9 w / 10 and the height 9 h / 10, cut to a
  whole number.
\<close>

theorem clusterLidarWithROI_sole_owner:
  assumes "i < length boxes"
  shows
   "length (clusterLidarWithROI project boxes pts shrinkFactor) = length boxes \<and>
    roi (clusterLidarWithROI project boxes pts shrinkFactor ! i) = roi (boxes ! i) \<and>
    lidarPoints (clusterLidarWithROI project boxes pts shrinkFactor ! i) =
      lidarPoints (boxes ! i) @
      filter (\<lambda>p. sole_box shrinkFactor boxes (project p) i) pts \<and>
    (\<forall>p j. sole_box shrinkFactor boxes (project p) i \<and>
           sole_box shrinkFactor boxes (project p) j \<longrightarrow> j = i) \<and>
    (\<forall>r. 0 \<le> rect_width r \<and> rect_width r < 1048576 \<and>
         0 \<le> rect_height r \<and> rect_height r < 1048576 \<longrightarrow>
       smallerBox (13421773 / 134217728) r =
         \<lparr>rect_x = cut20 (20 * rect_x r + rect_width r),
          rect_y = cut20 (20 * rect_y r + rect_height r),
          rect_width = 9 * rect_width r div 10,
          rect_height = 9 * rect_height r div 10\<rparr>)"
proof -
  let ?res = "clusterLidarWithROI project boxes pts shrinkFactor"
  have f: "map roi ?res = map roi boxes \<and>
     lidarPoints (?res ! i) = lidarPoints (boxes ! i) @
        filter (\<lambda>p. sole_box shrinkFactor boxes (project p) i) pts"
    unfolding clusterLidarWithROI_def by (rule clusterLidar_fold[OF assms])
  then have l: "length ?res = length boxes" by (metis length_map)
  have r: "roi (?res ! i) = roi (boxes ! i)"
    using f l assms by (metis nth_map)
  have u: "\<forall>p j. sole_box shrinkFactor boxes (project p) i \<and>
           sole_box shrinkFactor boxes (project p) j \<longrightarrow> j = i"
    by (auto simp: sole_box_def)
  have c: "\<forall>r. 0 \<le> rect_width r \<and> rect_width r < 1048576 \<and>
         0 \<le> rect_height r \<and> rect_height r < 1048576 \<longrightarrow>
       smallerBox (13421773 / 134217728) r =
         \<lparr>rect_x = cut20 (20 * rect_x r + rect_width r),
          rect_y = cut20 (20 * rect_y r + rect_height r),
          rect_width = 9 * rect_width r div 10,
          rect_height = 9 * rect_height r div 10\<rparr>"
    using shrunk_tenth by (simp add: smallerBox_shrunk shrink10_def)
  show ?thesis using f l r u c by blast
qed

text \<open>
  The witness: three boxes, of which the first two overlap. The rectangle
  (0, 0, 100, 100) is shrunk to the columns and rows 5 to 94, (90, 0, 15, 15) to the
  columns 90 to 102 and the rows 0 to 12, and (-5, 200, 15, 15) to the columns -4 to
  8 and the rows 200 to 212.
\<close>

lemma shrunk_boxes3:
  "shrunk shrink10 (roi (mk_box 0 0 0 100 100)) =
     \<lparr>rect_x = 5, rect_y = 5, rect_width = 90, rect_height = 90\<rparr>"
  "shrunk shrink10 (roi (mk_box 1 90 0 15 15)) =
     \<lparr>rect_x = 90, rect_y = 0, rect_width = 13, rect_height = 13\<rparr>"
  "shrunk shrink10 (roi (mk_box 2 (- 5) 200 15 15)) =
     \<lparr>rect_x = - 4, rect_y = 200, rect_width = 13, rect_height = 13\<rparr>"
  by (subst shrunk_tenth, simp_all add: mk_box_def cut20_def)+

lemma sole_box_boxes3:
  "sole_box shrink10 boxes3 px i \<longleftrightarrow>
     (i = 0 \<and> in_rect (shrunk shrink10 (roi (mk_box 0 0 0 100 100))) px \<and>
        \<not> in_rect (shrunk shrink10 (roi (mk_box 1 90 0 15 15))) px \<and>
        \<not> in_rect (shrunk shrink10 (roi (mk_box 2 (- 5) 200 15 15))) px) \<or>
     (i = 1 \<and> in_rect (shrunk shrink10 (roi (mk_box 1 90 0 15 15))) px \<and>
        \<not> in_rect (shrunk shrink10 (roi (mk_box 0 0 0 100 100))) px \<and>
        \<not> in_rect (shrunk shrink10 (roi (mk_box 2 (- 5) 200 15 15))) px) \<or>
     (i = 2 \<and> in_rect (shrunk shrink10 (roi (mk_box 2 (- 5) 200 15 15))) px \<and>
        \<not> in_rect (shrunk shrink10 (roi (mk_box 0 0 0 100 100))) px \<and>
        \<not> in_rect (shrunk shrink10 (roi (mk_box 1 90 0 15 15))) px)"
  by (auto simp: sole_box_def boxes3_def less_Suc_eq nth_Cons')

theorem clusterLidarWithROI_sole_owner_witness:
  "smallerBox shrink10 (roi (boxes3 ! 0)) =
     \<lparr>rect_x = 5, rect_y = 5, rect_width = 90, rect_height = 90\<rparr> \<and>
   smallerBox shrink10 (roi (boxes3 ! 1)) =
     \<lparr>rect_x = 90, rect_y = 0, rect_width = 13, rect_height = 13\<rparr> \<and>
   smallerBox shrink10 (roi (boxes3 ! 2)) =
     \<lparr>rect_x = - 4, rect_y = 200, rect_width = 13, rect_height = 13\<rparr> \<and>
   lidarPoints (clusterLidarWithROI flat_project boxes3 points9 shrink10 ! 0) =
     [pxy 94 50, pxy 5 5] \<and>
   lidarPoints (clusterLidarWithROI flat_project boxes3 points9 shrink10 ! 1) = [pxy 90 0] \<and>
   lidarPoints (clusterLidarWithROI flat_project boxes3 points9 shrink10 ! 2) =
     [pxy (- 4) 205, pxy 8 212]"
proof -
  have h0: "0 < length boxes3" and h1: "1 < length boxes3" and h2: "2 < length boxes3"
    by (simp_all add: boxes3_def)
  have l: "lidarPoints (boxes3 ! 0) = []" "lidarPoints (boxes3 ! 1) = []"
    "lidarPoints (boxes3 ! 2) = []"
    by (simp_all add: boxes3_def mk_box_def)
  have f: "filter (\<lambda>p. sole_box shrink10 boxes3 (flat_project p) 0) points9 =
             [pxy 94 50, pxy 5 5]"
    "filter (\<lambda>p. sole_box shrink10 boxes3 (flat_project p) 1) points9 = [pxy 90 0]"
    "filter (\<lambda>p. sole_box shrink10 boxes3 (flat_project p) 2) points9 =
       [pxy (- 4) 205, pxy 8 212]"
    by (simp_all add: sole_box_boxes3 shrunk_boxes3 points9_def flat_project_pxy to_int_def
        in_rect_def)
  have r0: "lidarPoints (clusterLidarWithROI flat_project boxes3 points9 shrink10 ! 0) =
     lidarPoints (boxes3 ! 0) @
     filter (\<lambda>p. sole_box shrink10 boxes3 (flat_project p) 0) points9"
    using clusterLidarWithROI_sole_owner[OF h0, of flat_project points9 shrink10] by blast
  have r1: "lidarPoints (clusterLidarWithROI flat_project boxes3 points9 shrink10 ! 1) =
     lidarPoints (boxes3 ! 1) @
     filter (\<lambda>p. sole_box shrink10 boxes3 (flat_project p) 1) points9"
    using clusterLidarWithROI_sole_owner[OF h1, of flat_project points9 shrink10] by blast
  have r2: "lidarPoints (clusterLidarWithROI flat_project boxes3 points9 shrink10 ! 2) =
     lidarPoints (boxes3 ! 2) @
     filter (\<lambda>p. sole_box shrink10 boxes3 (flat_project p) 2) points9"
    using clusterLidarWithROI_sole_owner[OF h2, of flat_project points9 shrink10] by blast
  have c: "0 \<le> rect_width r \<and> rect_width r < 1048576 \<and>
         0 \<le> rect_height r \<and> rect_height r < 1048576 \<longrightarrow>
       smallerBox shrink10 r =
         \<lparr>rect_x = cut20 (20 * rect_x r + rect_width r),
          rect_y = cut20 (20 * rect_y r + rect_height r),
          rect_width = 9 * rect_width r div 10,
          rect_height = 9 * rect_height r div 10\<rparr>" for r
    using clusterLidarWithROI_sole_owner[OF h0, of flat_project points9 shrink10]
    unfolding shrink10_def by blast
  have s0: "smallerBox shrink10 (roi (boxes3 ! 0)) =
     \<lparr>rect_x = 5, rect_y = 5, rect_width = 90, rect_height = 90\<rparr>"
    using c[of "roi (boxes3 ! 0)"] by (simp add: boxes3_def mk_box_def cut20_def)
  have s1: "smallerBox shrink10 (roi (boxes3 ! 1)) =
     \<lparr>rect_x = 90, rect_y = 0, rect_width = 13, rect_height = 13\<rparr>"
    using c[of "roi (boxes3 ! 1)"] by (simp add: boxes3_def mk_box_def cut20_def)
  have s2: "smallerBox shrink10 (roi (boxes3 ! 2)) =
     \<lparr>rect_x = - 4, rect_y = 200, rect_width = 13, rect_height = 13\<rparr>"
    using c[of "roi (boxes3 ! 2)"] by (simp add: boxes3_def mk_box_def cut20_def)
  show ?thesis
    unfolding r0 r1 r2 l f s0 s1 s2 by simp
qed

subsection \<open>clusterKptMatchesWithROI\<close>













subsection \<open>matchBoundingBoxes\<close>

lemma IOURatio_Fin:
  "is_fin (IOURatio (roi p) (roi c)) \<Longrightarrow> IOURatio (roi p) (roi c) = Fin (ratio p c)"
  by (auto simp: ratio_def is_fin_iff)

lemma iou_fold:
  assumes "\<forall>c\<in>set cs. is_fin (IOURatio (roi p) (roi c))"
  shows "\<exists>M ps'. foldl (iou_step p) (Fin m, ps) cs = (Fin M, ps') \<and>
     (((\<forall>c\<in>set cs. ratio p c \<le> m) \<and> M = m \<and> ps' = ps) \<or>
      (\<exists>c. first_max (ratio p) cs c \<and> m < ratio p c \<and>
           M = ratio p c \<and> ps' \<noteq> [] \<and> last ps' = (p, c)))"
  using assms
proof (induction cs arbitrary: m ps)
  case Nil
  show ?case by simp
next
  case (Cons c0 cs)
  let ?r = "ratio p"
  have r0: "IOURatio (roi p) (roi c0) = Fin (?r c0)"
    using Cons.prems by (simp add: IOURatio_Fin)
  have rest: "\<forall>c\<in>set cs. is_fin (IOURatio (roi p) (roi c))" using Cons.prems by simp
  show ?case
  proof (cases "m < ?r c0")
    case True
    have step: "foldl (iou_step p) (Fin m, ps) (c0 # cs) =
                foldl (iou_step p) (Fin (?r c0), ps @ [(p, c0)]) cs"
      using True by (simp add: iou_step_def r0 fgreater_def)
    from Cons.IH[OF rest, of "?r c0" "ps @ [(p, c0)]"]
    obtain M ps' where f: "foldl (iou_step p) (Fin (?r c0), ps @ [(p, c0)]) cs = (Fin M, ps')"
      and d: "((\<forall>c\<in>set cs. ?r c \<le> ?r c0) \<and> M = ?r c0 \<and> ps' = ps @ [(p, c0)]) \<or>
      (\<exists>c. first_max ?r cs c \<and> ?r c0 < ?r c \<and> M = ?r c \<and> ps' \<noteq> [] \<and> last ps' = (p, c))"
      by blast
    from d have "\<exists>c. first_max ?r (c0 # cs) c \<and> m < ?r c \<and> M = ?r c \<and> ps' \<noteq> [] \<and> last ps' = (p, c)"
    proof
      assume a: "(\<forall>c\<in>set cs. ?r c \<le> ?r c0) \<and> M = ?r c0 \<and> ps' = ps @ [(p, c0)]"
      have "first_max ?r (c0 # cs) c0"
        unfolding first_max_def using a by (intro exI[of _ "[]"] exI[of _ cs]) simp
      then show ?thesis using a True by auto
    next
      assume "\<exists>c. first_max ?r cs c \<and> ?r c0 < ?r c \<and> M = ?r c \<and> ps' \<noteq> [] \<and> last ps' = (p, c)"
      then obtain c where c: "first_max ?r cs c" "?r c0 < ?r c" "M = ?r c" "ps' \<noteq> []" "last ps' = (p, c)"
        by blast
      from c(1) obtain ys zs where yz: "cs = ys @ c # zs" "\<forall>y\<in>set ys. ?r y < ?r c" "\<forall>z\<in>set zs. ?r z \<le> ?r c"
        unfolding first_max_def by blast
      have "first_max ?r (c0 # cs) c"
        unfolding first_max_def using yz c(2)
        by (intro exI[of _ "c0 # ys"] exI[of _ zs]) simp
      then show ?thesis using c True by auto
    qed
    then show ?thesis unfolding step using f by blast
  next
    case False
    have step: "foldl (iou_step p) (Fin m, ps) (c0 # cs) =
                foldl (iou_step p) (Fin m, ps) cs"
      using False by (simp add: iou_step_def r0 fgreater_def)
    from Cons.IH[OF rest, of m ps]
    obtain M ps' where f: "foldl (iou_step p) (Fin m, ps) cs = (Fin M, ps')"
      and d: "((\<forall>c\<in>set cs. ?r c \<le> m) \<and> M = m \<and> ps' = ps) \<or>
      (\<exists>c. first_max ?r cs c \<and> m < ?r c \<and> M = ?r c \<and> ps' \<noteq> [] \<and> last ps' = (p, c))"
      by blast
    from d have "((\<forall>c\<in>set (c0 # cs). ?r c \<le> m) \<and> M = m \<and> ps' = ps) \<or>
      (\<exists>c. first_max ?r (c0 # cs) c \<and> m < ?r c \<and> M = ?r c \<and> ps' \<noteq> [] \<and> last ps' = (p, c))"
    proof
      assume "(\<forall>c\<in>set cs. ?r c \<le> m) \<and> M = m \<and> ps' = ps"
      then show ?thesis using False by auto
    next
      assume "\<exists>c. first_max ?r cs c \<and> m < ?r c \<and> M = ?r c \<and> ps' \<noteq> [] \<and> last ps' = (p, c)"
      then obtain c where c: "first_max ?r cs c" "m < ?r c" "M = ?r c" "ps' \<noteq> []" "last ps' = (p, c)"
        by blast
      from c(1) obtain ys zs where yz: "cs = ys @ c # zs" "\<forall>y\<in>set ys. ?r y < ?r c" "\<forall>z\<in>set zs. ?r z \<le> ?r c"
        unfolding first_max_def by blast
      have "?r c0 < ?r c" using False c(2) by linarith
      then have "first_max ?r (c0 # cs) c"
        unfolding first_max_def using yz
        by (intro exI[of _ "c0 # ys"] exI[of _ zs]) simp
      then show ?thesis using c by auto
    qed
    then show ?thesis unfolding step using f by blast
  qed
qed

lemma match_one_recorded:
  assumes "\<forall>c\<in>set cs. is_fin (IOURatio (roi p) (roi c))"
  shows "\<exists>v. recorded (ratio p) cs v \<and>
     match_one cs bb p =
       Inr (case v of None \<Rightarrow> bb | Some c \<Rightarrow> map_insert bb (boxID p) c)"
proof -
  let ?r = "ratio p"
  from assms iou_fold[where cs = cs and p = p and m = "- 1000000000" and ps = "[]"]
  obtain M ps' where f: "foldl (iou_step p) (Fin (- 1000000000), []) cs = (Fin M, ps')"
    and d: "((\<forall>c\<in>set cs. ?r c \<le> - 1000000000) \<and> M = - 1000000000 \<and> ps' = []) \<or>
      (\<exists>c. first_max ?r cs c \<and> - 1000000000 < ?r c \<and> M = ?r c \<and> ps' \<noteq> [] \<and> last ps' = (p, c))"
    by blast
  from d show ?thesis
  proof
    assume a: "(\<forall>c\<in>set cs. ?r c \<le> - 1000000000) \<and> M = - 1000000000 \<and> ps' = []"
    then have "\<forall>c\<in>set cs. ?r c \<le> 11744051 / 16777216" by force
    then have "recorded ?r cs None" by (simp add: recorded_def)
    moreover have "match_one cs bb p = Inr bb"
      using a by (simp add: match_one_def f fgreater_def IOUThreshold_def)
    ultimately show ?thesis by (intro exI[of _ None]) simp
  next
    assume "\<exists>c. first_max ?r cs c \<and> - 1000000000 < ?r c \<and> M = ?r c \<and> ps' \<noteq> [] \<and> last ps' = (p, c)"
    then obtain c where c: "first_max ?r cs c" "M = ?r c" "ps' \<noteq> []" "last ps' = (p, c)"
      by blast
    show ?thesis
    proof (cases "11744051 / 16777216 < ?r c")
      case True
      then have "recorded ?r cs (Some (boxID c))" using c(1) by (auto simp: recorded_def)
      moreover have "match_one cs bb p = Inr (map_insert bb (boxID p) (boxID c))"
        using True c by (simp add: match_one_def f fgreater_def IOUThreshold_def)
      ultimately show ?thesis by (intro exI[of _ "Some (boxID c)"]) simp
    next
      case False
      from c(1) obtain ys zs where yz: "cs = ys @ c # zs" "\<forall>y\<in>set ys. ?r y < ?r c" "\<forall>z\<in>set zs. ?r z \<le> ?r c"
        unfolding first_max_def by blast
      have "\<forall>x\<in>set cs. ?r x \<le> ?r c" using yz by (auto simp: less_imp_le)
      then have "\<forall>x\<in>set cs. ?r x \<le> 11744051 / 16777216" using False by force
      then have "recorded ?r cs None" by (simp add: recorded_def)
      moreover have "match_one cs bb p = Inr bb"
        using False c by (simp add: match_one_def f fgreater_def IOUThreshold_def)
      ultimately show ?thesis by (intro exI[of _ None]) simp
    qed
  qed
qed

lemma map_insert_apply:
  "map_insert m k v k' = (if k' = k \<and> m k = None then Some v else m k')"
  by (simp add: map_insert_def split: option.splits)

lemma match_all_spec:
  assumes "\<forall>p\<in>set prev. \<forall>c\<in>set cs. is_fin (IOURatio (roi p) (roi c))"
  shows "\<exists>bb'. match_all cs bb prev = Inr bb' \<and>
     (\<forall>k. k \<notin> boxID ` set prev \<or> bb k \<noteq> None \<longrightarrow> bb' k = bb k) \<and>
     (distinct (map boxID prev) \<longrightarrow>
        (\<forall>p\<in>set prev. bb (boxID p) = None \<longrightarrow>
           recorded (ratio p) cs (bb' (boxID p))))"
  using assms
proof (induction prev arbitrary: bb)
  case Nil
  show ?case by simp
next
  case (Cons q rest)
  have aq: "\<forall>c\<in>set cs. is_fin (IOURatio (roi q) (roi c))" using Cons.prems by simp
  have ar: "\<forall>p\<in>set rest. \<forall>c\<in>set cs. is_fin (IOURatio (roi p) (roi c))"
    using Cons.prems by simp
  from aq match_one_recorded[where cs = cs and p = q and bb = bb]
  obtain v where v: "recorded (ratio q) cs v"
    and one: "match_one cs bb q =
       Inr (case v of None \<Rightarrow> bb | Some c \<Rightarrow> map_insert bb (boxID q) c)"
    by blast
  define bb1 where "bb1 = (case v of None \<Rightarrow> bb | Some c \<Rightarrow> map_insert bb (boxID q) c)"
  have bb1_other: "bb1 k = bb k" if "k \<noteq> boxID q \<or> bb k \<noteq> None" for k
    using that by (auto simp: bb1_def map_insert_apply split: option.splits)
  have bb1_q: "bb1 (boxID q) = v" if "bb (boxID q) = None"
    using that by (auto simp: bb1_def map_insert_apply split: option.splits)
  from Cons.IH[OF ar, of bb1]
  obtain bb' where all: "match_all cs bb1 rest = Inr bb'"
    and keep: "\<forall>k. k \<notin> boxID ` set rest \<or> bb1 k \<noteq> None \<longrightarrow> bb' k = bb1 k"
    and rec: "distinct (map boxID rest) \<longrightarrow>
        (\<forall>p\<in>set rest. bb1 (boxID p) = None \<longrightarrow>
           recorded (ratio p) cs (bb' (boxID p)))"
    by blast
  have res: "match_all cs bb (q # rest) = Inr bb'"
    by (simp add: one all bb1_def[symmetric])
  have keep': "\<forall>k. k \<notin> boxID ` set (q # rest) \<or> bb k \<noteq> None \<longrightarrow> bb' k = bb k"
  proof (intro allI impI)
    fix k assume k: "k \<notin> boxID ` set (q # rest) \<or> bb k \<noteq> None"
    then have 1: "bb1 k = bb k" using bb1_other[of k] by auto
    from k have "k \<notin> boxID ` set rest \<or> bb1 k \<noteq> None" using 1 by auto
    then have "bb' k = bb1 k" using keep by blast
    then show "bb' k = bb k" using 1 by simp
  qed
  have rec': "distinct (map boxID (q # rest)) \<longrightarrow>
        (\<forall>p\<in>set (q # rest). bb (boxID p) = None \<longrightarrow>
           recorded (ratio p) cs (bb' (boxID p)))"
  proof (intro impI ballI)
    fix p assume d: "distinct (map boxID (q # rest))" and p: "p \<in> set (q # rest)"
      and n: "bb (boxID p) = None"
    from d have dq: "boxID q \<notin> boxID ` set rest" and dr: "distinct (map boxID rest)" by auto
    show "recorded (ratio p) cs (bb' (boxID p))"
    proof (cases "p = q")
      case True
      have "bb' (boxID q) = bb1 (boxID q)" using keep dq by blast
      also have "\<dots> = v" using bb1_q n True by simp
      finally show ?thesis using v True by simp
    next
      case False
      then have pr: "p \<in> set rest" using p by simp
      then have "boxID p \<in> boxID ` set rest" by (rule imageI)
      then have "boxID p \<noteq> boxID q" using dq by metis
      then have "bb1 (boxID p) = None" using bb1_other[of "boxID p"] n by simp
      then show ?thesis using rec dr pr by blast
    qed
  qed
  show ?case using res keep' rec' by blast
qed

text \<open>
  What the function records, in general: with every ratio a number and distinct ids
  in the previous frame, every previous box that had no entry before gets the entry
  \<open>recorded\<close> describes, the id of the first current box with the largest computed
  ratio, if that ratio exceeds the threshold, and no entry otherwise; ids of no
  previous box keep what they had.
\<close>

lemma matchBoundingBoxes_first_max:
  assumes "\<forall>p\<in>set (boundingBoxes prevFrame). \<forall>c\<in>set (boundingBoxes currFrame).
             is_fin (IOURatio (roi p) (roi c))"
    and "distinct (map boxID (boundingBoxes prevFrame))"
  shows "\<exists>bb'. matchBoundingBoxes matches bbBestMatches prevFrame currFrame = Inr bb' \<and>
     (\<forall>p\<in>set (boundingBoxes prevFrame). bbBestMatches (boxID p) = None \<longrightarrow>
        recorded (ratio p) (boundingBoxes currFrame) (bb' (boxID p))) \<and>
     (\<forall>k. k \<notin> boxID ` set (boundingBoxes prevFrame) \<longrightarrow> bb' k = bbBestMatches k)"
  using assms(1) assms(2)
    match_all_spec[where prev = "boundingBoxes prevFrame" and cs = "boundingBoxes currFrame"
      and bb = bbBestMatches]
  unfolding matchBoundingBoxes_def by blast

text \<open>The area of a rectangle of 65536 by 65536 pixels is 0 in 32 bits.\<close>

lemma area_wraps:
  "area \<lparr>rect_x = 0, rect_y = 0, rect_width = 65536, rect_height = 65536\<rparr> = 0"
  by (simp add: area_def int32_def)

lemma float_round_8281: "float_round (8281 / 11881) = 11693639 / 16777216"
  by (subst float_round_binade[where e = "- 1"]) (simp_all add: pow2_def round_even_def Let_def)

lemma float_round_9900: "float_round (99 / 101) = 8222497 / 8388608"
  by (subst float_round_binade[where e = "- 1"]) (simp_all add: pow2_def round_even_def Let_def)

text \<open>
  Claim C5. The function does not compute the intersection over union that the claim
  and the comment of line 369 name: it divides the area of the common part by the
  area of \<^verbatim>\<open>a | b\<close>, which for OpenCV is the smallest rectangle that holds both. The
  previous box (0, 0, 100, 100) and the current box (9, 9, 100, 100) have the common
  part 91 by 91 = 8281 and the union 10000 + 10000 - 8281 = 11719, an intersection
  over union of 0.7066 > 0.7, so the claim has the entry 0 to 1 recorded; the function
  divides by the area 109 by 109 = 11881 of the enclosing rectangle, gets the float
  11693639 / 2^24 = 0.697 and records nothing. Where the enclosing rectangle is the
  union, as for (0, 0, 100, 100) and (1, 0, 100, 100), the entry is recorded.
\<close>

theorem matchBoundingBoxes_enclosing_rectangle:
  "cv_rect_and (roi (mk_box 0 0 0 100 100)) (roi (mk_box 1 9 9 100 100)) =
     \<lparr>rect_x = 9, rect_y = 9, rect_width = 91, rect_height = 91\<rparr> \<and>
   cv_rect_or (roi (mk_box 0 0 0 100 100)) (roi (mk_box 1 9 9 100 100)) =
     \<lparr>rect_x = 0, rect_y = 0, rect_width = 109, rect_height = 109\<rparr> \<and>
   IOURatio (roi (mk_box 0 0 0 100 100)) (roi (mk_box 1 9 9 100 100)) =
     Fin (11693639 / 16777216) \<and>
   matchBoundingBoxes [] Map.empty \<lparr>boundingBoxes = [mk_box 0 0 0 100 100]\<rparr>
     \<lparr>boundingBoxes = [mk_box 1 9 9 100 100]\<rparr> = Inr Map.empty \<and>
   iou (roi (mk_box 0 0 0 100 100)) (roi (mk_box 1 9 9 100 100)) = 8281 / 11719 \<and>
   (7 / 10 :: real) < 8281 / 11719 \<and>
   matchBoundingBoxes [] Map.empty \<lparr>boundingBoxes = [mk_box 0 0 0 100 100]\<rparr>
     \<lparr>boundingBoxes = [mk_box 7 1 0 100 100]\<rparr> = Inr [0 \<mapsto> 7]"
proof -
  have a: "cv_rect_and (roi (mk_box 0 0 0 100 100)) (roi (mk_box 1 9 9 100 100)) =
     \<lparr>rect_x = 9, rect_y = 9, rect_width = 91, rect_height = 91\<rparr>"
    by (simp add: cv_rect_and_def mk_box_def Let_def)
  have b: "cv_rect_or (roi (mk_box 0 0 0 100 100)) (roi (mk_box 1 9 9 100 100)) =
     \<lparr>rect_x = 0, rect_y = 0, rect_width = 109, rect_height = 109\<rparr>"
    by (simp add: cv_rect_or_def rect_empty_def mk_box_def Let_def)
  have c: "IOURatio (roi (mk_box 0 0 0 100 100)) (roi (mk_box 1 9 9 100 100)) =
     Fin (11693639 / 16777216)"
    unfolding IOURatio_def a b
    by (simp add: area_def int32_def float_round_whole float_round_8281)
  have d: "matchBoundingBoxes [] Map.empty \<lparr>boundingBoxes = [mk_box 0 0 0 100 100]\<rparr>
     \<lparr>boundingBoxes = [mk_box 1 9 9 100 100]\<rparr> = Inr Map.empty"
    by (simp add: matchBoundingBoxes_def match_one_def iou_step_def c fgreater_def
        IOUThreshold_def)
  have e: "iou (roi (mk_box 0 0 0 100 100)) (roi (mk_box 1 9 9 100 100)) = 8281 / 11719"
    by (simp add: iou_def common_area_def mk_box_def)
  have a': "cv_rect_and (roi (mk_box 0 0 0 100 100)) (roi (mk_box 7 1 0 100 100)) =
     \<lparr>rect_x = 1, rect_y = 0, rect_width = 99, rect_height = 100\<rparr>"
    by (simp add: cv_rect_and_def mk_box_def Let_def)
  have b': "cv_rect_or (roi (mk_box 0 0 0 100 100)) (roi (mk_box 7 1 0 100 100)) =
     \<lparr>rect_x = 0, rect_y = 0, rect_width = 101, rect_height = 100\<rparr>"
    by (simp add: cv_rect_or_def rect_empty_def mk_box_def Let_def)
  have c': "IOURatio (roi (mk_box 0 0 0 100 100)) (roi (mk_box 7 1 0 100 100)) =
     Fin (8222497 / 8388608)"
    unfolding IOURatio_def a' b'
    by (simp add: area_def int32_def float_round_whole float_round_9900)
  have f: "matchBoundingBoxes [] Map.empty \<lparr>boundingBoxes = [mk_box 0 0 0 100 100]\<rparr>
     \<lparr>boundingBoxes = [mk_box 7 1 0 100 100]\<rparr> = Inr [0 \<mapsto> 7]"
    by (simp add: matchBoundingBoxes_def match_one_def iou_step_def c' fgreater_def
        IOUThreshold_def map_insert_def)
       (simp add: mk_box_def)
  show ?thesis using a b c d e f by simp
qed

section \<open>Properties of the camera estimator and of empty inputs\<close>

lemma cv_norm_axis:
  "cv_norm (psub (pt (kp a 0)) (pt (kp b 0))) = Fin \<bar>float_round (a - b)\<bar>"
  by (simp add: cv_norm_def psub_def kp_def fsub_def float_round_zero)

text \<open>
  Claim C4. The loops do not visit every unordered pair once: the outer loop runs
  over all correspondences but the last and the inner loop over all but the first, so
  a pair of two correspondences that are neither the first nor the last is visited in
  both orders and its ratio is collected twice. With four correspondences on a line
  the function collects seven ratios, 23/20 twice, and their median 23/20 gives the
  TTC 2/3 s; the six ratios of the six unordered pairs have the median 139/120, which
  gives 12/19 s.
\<close>

theorem computeTTCCamera_inner_pairs_twice:
  "outer_loop kpsPrev4 kpsCurr4 (butlast matches4) (tl matches4) [] =
     Inr [Fin (11 / 10), Fin (17 / 15), Fin (7 / 6), Fin (23 / 20), Fin (59 / 50),
          Fin (23 / 20), Fin (6 / 5)] \<and>
   computeTTCCamera kpsPrev4 kpsCurr4 matches4 (Fin 10) = Inr (Fin (2 / 3)) \<and>
   concat (map (pair_ratio kpsPrev4 kpsCurr4) (unordered_pairs matches4)) =
     [Fin (11 / 10), Fin (17 / 15), Fin (7 / 6), Fin (23 / 20), Fin (59 / 50), Fin (6 / 5)] \<and>
   computeTTCCamera_spec kpsPrev4 kpsCurr4 matches4 (Fin 10) = Fin (12 / 19)"
proof -
  have a: "outer_loop kpsPrev4 kpsCurr4 (butlast matches4) (tl matches4) [] =
     Inr [Fin (11 / 10), Fin (17 / 15), Fin (7 / 6), Fin (23 / 20), Fin (59 / 50),
          Fin (23 / 20), Fin (6 / 5)]"
    by (simp add: kpsPrev4_def kpsCurr4_def matches4_def dm_def vec_at_def cv_norm_axis
        fgreater_def fge_def epsilon_def minDist_def medianDistRatio_def sort_double_def
        Let_def fsub_def float_round_whole)
  have b: "computeTTCCamera kpsPrev4 kpsCurr4 matches4 (Fin 10) = Inr (Fin (2 / 3))"
    by (simp add: computeTTCCamera_def kpsPrev4_def kpsCurr4_def matches4_def dm_def vec_at_def cv_norm_axis
        fgreater_def fge_def epsilon_def minDist_def medianDistRatio_def sort_double_def
        Let_def fsub_def float_round_whole)
  have c: "concat (map (pair_ratio kpsPrev4 kpsCurr4) (unordered_pairs matches4)) =
     [Fin (11 / 10), Fin (17 / 15), Fin (7 / 6), Fin (23 / 20), Fin (59 / 50), Fin (6 / 5)]"
    by (simp add: pair_ratio_def kpsPrev4_def kpsCurr4_def matches4_def dm_def vec_at_def cv_norm_axis
        fgreater_def fge_def epsilon_def minDist_def medianDistRatio_def sort_double_def
        Let_def fsub_def float_round_whole)
  have d: "computeTTCCamera_spec kpsPrev4 kpsCurr4 matches4 (Fin 10) = Fin (12 / 19)"
    by (simp add: computeTTCCamera_spec_def pair_ratio_def kpsPrev4_def kpsCurr4_def matches4_def dm_def vec_at_def cv_norm_axis
        fgreater_def fge_def epsilon_def minDist_def medianDistRatio_def sort_double_def
        Let_def fsub_def float_round_whole)
  show ?thesis using a b c d by blast
qed

text \<open>
  Claim C2, as stated: called with empty lists, the estimators return the
  "unavailable" result before any division. \<^verbatim>\<open>computeTTCLidar\<close> does not: with two
  empty point lists it divides the sums by the size 0 (the means are NaN), no point
  passes the filter, both minima stay at 1e9, and the TTC is 1e9 * dT / 0, which is
  +infinity.
\<close>

theorem empty_input_counterexample:
  "lidarXMean [] = NaN \<and> minX [] = Fin 1000000000 \<and>
   TTC (computeTTCLidar [] [] (Fin 10) driver_init 0) = PInf"
  by (simp add: computeTTCLidar_def Let_def ttc_cv_def fsub_def lidarXMean_def lidarXSum_def
      vsize_def minX_def minX_init_def float_round_tenth)

text \<open>
  Claim C2, amended. The driver calls neither estimator for a pair of boxes of which
  one holds no lidar point: the kinematic state, the results so far and the box are
  what they were, so that other pairs of the frame are not affected.
  \<^verbatim>\<open>computeTTCCamera\<close> returns NaN, before its division, whenever no ratio was
  collected from a list that is not empty, as for a single correspondence.
  \<^verbatim>\<open>clusterKptMatchesWithROI\<close> with no correspondence returns the box as it was.
\<close>

theorem empty_input_handling:
  "(lidarPoints currBB = [] \<or> lidarPoints prevBB = [] \<longrightarrow>
      compute_pair contains prevBB currBB kptsPrev kptsCurr ms frameRate TTCcalModel (st, res) =
        Inr ((st, res), currBB)) \<and>
   computeTTCCamera kptsPrev kptsCurr [m] frameRate = Inr NaN \<and>
   (ms \<noteq> [] \<and> outer_loop kptsPrev kptsCurr (butlast ms) (tl ms) [] = Inr [] \<longrightarrow>
      computeTTCCamera kptsPrev kptsCurr ms frameRate = Inr NaN) \<and>
   clusterKptMatchesWithROI contains boundingBox kptsPrev kptsCurr [] = Inr boundingBox"
  by (auto simp: compute_pair_def computeTTCCamera_def clusterKptMatchesWithROI_def)

theorem empty_input_handling_witness:
  "compute_pair cv_contains_f (mk_box 0 0 0 100 100)
      ((mk_box 1 0 0 100 100)\<lparr>lidarPoints := [lidar_pt 10 1]\<rparr>)
      [kp 0 0] [kp 0 0] [dm 0 0] (Fin 10) 0
      (driver_init, \<lparr>lidarBasedTTC = [], cameraBasedTTC = []\<rparr>) =
     Inr ((driver_init, \<lparr>lidarBasedTTC = [], cameraBasedTTC = []\<rparr>),
          (mk_box 1 0 0 100 100)\<lparr>lidarPoints := [lidar_pt 10 1]\<rparr>) \<and>
   computeTTCCamera [kp 0 0] [kp 0 0] [dm 0 0] (Fin 10) = Inr NaN \<and>
   computeTTCCamera [kp 0 0, kp 10 0] [kp 0 0, kp 11 0] [dm 0 0, dm 1 1] (Fin 10) = Inr NaN \<and>
   clusterKptMatchesWithROI cv_contains_f (mk_box 0 0 0 100 100) [kp 0 0] [kp 0 0] [] =
     Inr (mk_box 0 0 0 100 100)"
proof -
  have e: "lidarPoints (mk_box 0 0 0 100 100) = []" by (simp add: mk_box_def)
  have o: "outer_loop [kp 0 0, kp 10 0] [kp 0 0, kp 11 0] (butlast [dm 0 0, dm 1 1])
             (tl [dm 0 0, dm 1 1]) [] = Inr []"
    by (simp add: dm_def vec_at_def cv_norm_axis fgreater_def fge_def epsilon_def minDist_def
        Let_def float_round_whole)
  show ?thesis
    using empty_input_handling[of "(mk_box 1 0 0 100 100)\<lparr>lidarPoints := [lidar_pt 10 1]\<rparr>"
            "mk_box 0 0 0 100 100" cv_contains_f "[kp 0 0]" "[kp 0 0]" "[dm 0 0]" "Fin 10" 0
            driver_init "\<lparr>lidarBasedTTC = [], cameraBasedTTC = []\<rparr>" "dm 0 0"
            "mk_box 0 0 0 100 100"]
          empty_input_handling[of "(mk_box 1 0 0 100 100)\<lparr>lidarPoints := [lidar_pt 10 1]\<rparr>"
            "mk_box 0 0 0 100 100" cv_contains_f "[kp 0 0, kp 10 0]" "[kp 0 0, kp 11 0]"
            "[dm 0 0, dm 1 1]" "Fin 10" 0
            driver_init "\<lparr>lidarBasedTTC = [], cameraBasedTTC = []\<rparr>" "dm 0 0"
            "mk_box 0 0 0 100 100"]
          e o
    by simp
qed

end
